theory Spec2Isabelle
  imports Main
begin

section \<open>The hot-reload orchestrator of \<^verbatim>\<open>build_hot_reload.py\<close>\<close>

text \<open>
  The script builds a reloadable module and a host executable with the external
  compiler, starts the host once, and then polls the modification times of the
  \<^verbatim>\<open>.odin\<close> files below \<^verbatim>\<open>source\<close>, rebuilding on every detected change until a
  marker file asks it to stop.

  The embedding passes the world explicitly. Everything the script reads from or
  writes to outside its own variables is a field of the record \<open>world\<close>; every system
  call it makes is appended to \<open>trace\<close>, so that what was called, and in which order,
  can be stated.
\<close>

subsection \<open>Module constants\<close>

definition OUT_DIR :: string where
  "OUT_DIR = ''build/hot_reload''"

definition EXE :: string where
  "EXE = ''game_hot_reload.bin''"

definition EXIT_SIGNAL_FILE :: string where
  "EXIT_SIGNAL_FILE = ''exit_signal.tmp''"

subsection \<open>Exceptions, system calls, the world\<close>

text \<open>
  The exceptions the script catches or lets escape. \<open>CalledProcessError\<close> is what
  \<^verbatim>\<open>subprocess.run(..., check=True)\<close> and \<^verbatim>\<open>subprocess.check_output\<close> raise on a nonzero
  exit status; \<open>FileNotFoundError\<close> is raised by \<^verbatim>\<open>stat\<close> and \<^verbatim>\<open>rename\<close> on a missing path
  and by \<^verbatim>\<open>check_output\<close> on a missing program; \<open>OSError\<close> stands for any other
  failure of the process-listing call.
\<close>

datatype exn = CalledProcessError | FileNotFoundError | OSError

datatype event =
    Print string
  | Stat string
  | Run "string list"
  | Rename string string
  | Check_output "string list"
  | Popen "string list" "string \<rightharpoonup> string"
  | Unlink string
  | Sleep nat

text \<open>
  \<^item> \<open>last_mtimes\<close> is the script's global dictionary, keyed by path.
  \<^item> \<open>os_walk\<close> is what \<^verbatim>\<open>os.walk\<close> yields for a top directory: the triples
    (root, directories, files), in order.
  \<^item> \<open>st_mtime p\<close> is the result of \<^verbatim>\<open>Path(p).stat().st_mtime\<close>; \<open>None\<close> is
    \<^verbatim>\<open>FileNotFoundError\<close>. The listing and the stat results are independent fields: a
    file can be listed and gone by the time it is inspected (or be a dangling link).
    The type \<open>'m\<close> of time stamps is arbitrary: the script only compares them with
    \<^verbatim>\<open>!=\<close>.
  \<^item> \<open>disk\<close> holds the contents of the files the script itself creates, renames,
    tests and deletes: the build artifacts and the stop marker.
  \<^item> \<open>odin cmd\<close> is what a run of the compiler with the command line \<open>cmd\<close> does: its
    exit status, and the bytes it leaves at its \<^verbatim>\<open>-out:\<close> path (\<open>None\<close>: it wrote nothing).
  \<^item> \<open>platform_system\<close> is \<^verbatim>\<open>platform.system()\<close>; \<open>proc_list cmd\<close> is the outcome of the
    process-listing command \<open>cmd\<close>: its output, or the exception raised.
  \<^item> \<open>environ\<close> is \<^verbatim>\<open>os.environ\<close>.
  \<^item> \<open>popen_error argv\<close> is the exception the system answers with when asked to start
    the program \<open>argv\<close> that is on disk (a permission or resource error); \<open>None\<close>: the child
    starts.
\<close>

record 'm world =
  last_mtimes :: "string \<rightharpoonup> 'm"
  os_walk :: "string \<Rightarrow> (string \<times> string list \<times> string list) list"
  st_mtime :: "string \<Rightarrow> 'm option"
  disk :: "string \<rightharpoonup> string"
  odin :: "string list \<Rightarrow> int \<times> string option"
  platform_system :: string
  proc_list :: "string list \<Rightarrow> exn + string"
  environ :: "string \<rightharpoonup> string"
  popen_error :: "string list \<Rightarrow> exn option"
  trace :: "event list"

definition emit :: "event \<Rightarrow> 'm world \<Rightarrow> 'm world" where
  "emit e w = w\<lparr>trace := trace w @ [e]\<rparr>"

definition print :: "string \<Rightarrow> 'm world \<Rightarrow> 'm world" where
  "print s w = emit (Print s) w"

text \<open>The events a computation from \<open>w\<close> to \<open>w'\<close> has appended to the trace.\<close>

definition emitted :: "'m world \<Rightarrow> 'm world \<Rightarrow> event list" where
  "emitted w w' = drop (length (trace w)) (trace w')"

subsection \<open>Strings and paths\<close>

text \<open>\<^verbatim>\<open>Path(root) / file\<close> for a root and a file name as \<^verbatim>\<open>os.walk\<close> yields them.\<close>

definition path_join :: "string \<Rightarrow> string \<Rightarrow> string" where
  "path_join root file = root @ ''/'' @ file"

text \<open>\<^verbatim>\<open>s.endswith(suf)\<close>.\<close>

definition endswith :: "string \<Rightarrow> string \<Rightarrow> bool" where
  "endswith s suf = (drop (length s - length suf) s = suf)"

text \<open>\<^verbatim>\<open>x in s\<close> on strings: \<open>x\<close> occurs in \<open>s\<close> as a contiguous substring.\<close>

fun str_in :: "string \<Rightarrow> string \<Rightarrow> bool" where
  "str_in x [] = (x = [])"
| "str_in x (c # cs) = (take (length x) (c # cs) = x \<or> str_in x cs)"

subsection \<open>Change detection\<close>

text \<open>
  The inner loop of \<^verbatim>\<open>check_for_changes\<close> over the files of one directory. The
  boolean is \<^verbatim>\<open>changes_detected\<close>: \<open>True\<close> is the \<^verbatim>\<open>break\<close>.
\<close>

fun scan_files :: "string \<Rightarrow> string list \<Rightarrow> 'm world \<Rightarrow> bool \<times> 'm world" where
  "scan_files root [] w = (False, w)"
| "scan_files root (file # files) w =
    (if \<not> endswith file ''.odin'' then scan_files root files w
     else
       let filepath = path_join root file;
           w1 = emit (Stat filepath) w
       in case st_mtime w1 filepath of
            None \<Rightarrow>
              scan_files root files (w1\<lparr>last_mtimes := (last_mtimes w1)(filepath := None)\<rparr>)
          | Some mtime \<Rightarrow>
              let not_checked = (last_mtimes w1 filepath = None);
                  changed = (last_mtimes w1 filepath \<noteq> Some mtime)
              in if not_checked \<or> changed
                 then (True,
                       print (''Detected change in '' @ filepath @ ''.'')
                         (w1\<lparr>last_mtimes := (last_mtimes w1)(filepath \<mapsto> mtime)\<rparr>))
                 else scan_files root files w1)"

text \<open>The outer loop over the directories of the walk, left as soon as a change was seen.\<close>

fun scan_dirs :: "(string \<times> string list \<times> string list) list \<Rightarrow> 'm world \<Rightarrow> bool \<times> 'm world" where
  "scan_dirs [] w = (False, w)"
| "scan_dirs ((root, dirs, files) # rest) w =
    (case scan_files root files w of
       (changes_detected, w') \<Rightarrow>
         if changes_detected then (True, w') else scan_dirs rest w')"

definition check_for_changes :: "string \<Rightarrow> 'm world \<Rightarrow> bool \<times> 'm world" where
  "check_for_changes source_dir w = scan_dirs (os_walk w source_dir) w"

text \<open>
  The keys of the dictionary comprehension of \<^verbatim>\<open>populate_last_mtimes\<close>, which are also
  the paths the two loops of \<^verbatim>\<open>check_for_changes\<close> run over: the \<^verbatim>\<open>.odin\<close> files of
  every directory of the walk, in walk order.
\<close>

definition tracked_in :: "string \<Rightarrow> string list \<Rightarrow> string list" where
  "tracked_in root files = map (path_join root) (filter (\<lambda>file. endswith file ''.odin'') files)"

definition tracked_files :: "string \<Rightarrow> 'm world \<Rightarrow> string list" where
  "tracked_files source_dir w =
     concat (map (\<lambda>(root, dirs, files). tracked_in root files) (os_walk w source_dir))"

text \<open>
  \<^verbatim>\<open>populate_last_mtimes\<close>: the comprehension stats every tracked file; a
  \<^verbatim>\<open>FileNotFoundError\<close> escapes it, and then the global is not assigned.
\<close>

fun stat_all :: "string list \<Rightarrow> (string \<rightharpoonup> 'm) \<Rightarrow> 'm world \<Rightarrow> (exn + (string \<rightharpoonup> 'm)) \<times> 'm world" where
  "stat_all [] d w = (Inr d, w)"
| "stat_all (filepath # rest) d w =
    (let w1 = emit (Stat filepath) w
     in case st_mtime w1 filepath of
          None \<Rightarrow> (Inl FileNotFoundError, w1)
        | Some mtime \<Rightarrow> stat_all rest (d(filepath \<mapsto> mtime)) w1)"

definition populate_last_mtimes :: "string \<Rightarrow> 'm world \<Rightarrow> (exn + unit) \<times> 'm world" where
  "populate_last_mtimes source_dir w =
    (case stat_all (tracked_files source_dir w) Map.empty w of
       (Inl e, w1) \<Rightarrow> (Inl e, w1)
     | (Inr d, w1) \<Rightarrow> (Inr (), w1\<lparr>last_mtimes := d\<rparr>))"

subsection \<open>Build driver\<close>

text \<open>
  \<^verbatim>\<open>subprocess.run(cmd, check=True)\<close> for a compiler command line. The compiler is not
  part of the script: the model takes from the world what the run does, and assumes that
  the only file of \<open>disk\<close> it writes is the one named by its \<^verbatim>\<open>-out:\<close> argument.
\<close>

fun out_path :: "string list \<Rightarrow> string option" where
  "out_path [] = None"
| "out_path (arg # args) =
    (if take 5 arg = ''-out:'' then Some (drop 5 arg) else out_path args)"

definition compiler_output ::
  "string list \<Rightarrow> string option \<Rightarrow> (string \<rightharpoonup> string) \<Rightarrow> (string \<rightharpoonup> string)" where
  "compiler_output cmd written d =
    (case (out_path cmd, written) of
       (Some out, Some bytes) \<Rightarrow> d(out \<mapsto> bytes)
     | _ \<Rightarrow> d)"

definition subprocess_run :: "string list \<Rightarrow> 'm world \<Rightarrow> (exn + unit) \<times> 'm world" where
  "subprocess_run cmd w =
    (case odin w cmd of
       (returncode, written) \<Rightarrow>
         let w1 = emit (Run cmd) w;
             w2 = w1\<lparr>disk := compiler_output cmd written (disk w1)\<rparr>
         in if returncode \<noteq> 0 then (Inl CalledProcessError, w2) else (Inr (), w2))"

text \<open>\<^verbatim>\<open>Path(src).rename(dst)\<close>: a missing source raises \<^verbatim>\<open>FileNotFoundError\<close>.\<close>

definition rename :: "string \<Rightarrow> string \<Rightarrow> 'm world \<Rightarrow> (exn + unit) \<times> 'm world" where
  "rename src dst w =
    (let w1 = emit (Rename src dst) w
     in case disk w1 src of
          None \<Rightarrow> (Inl FileNotFoundError, w1)
        | Some bytes \<Rightarrow> (Inr (), w1\<lparr>disk := (disk w1)(src := None, dst \<mapsto> bytes)\<rparr>))"

definition dll_build_cmd :: "string \<Rightarrow> string \<Rightarrow> string list" where
  "dll_build_cmd dll_ext extra_linker_flags =
    [''odin'', ''build'', ''source'',
     ''-extra-linker-flags:'' @ extra_linker_flags,
     ''-define:RAYLIB_SHARED=true'',
     ''-build-mode:dll'',
     ''-out:'' @ OUT_DIR @ ''/game_tmp'' @ dll_ext,
     ''-strict-style'',
     ''-vet'',
     ''-debug'']"

text \<open>
  \<^verbatim>\<open>build_dll\<close>. The \<^verbatim>\<open>try\<close> body runs the compiler and renames the temporary file into
  place; \<^verbatim>\<open>except subprocess.CalledProcessError\<close> catches that exception only, so a
  failing rename escapes.
\<close>

definition build_dll :: "string \<Rightarrow> string \<Rightarrow> 'm world \<Rightarrow> (exn + bool) \<times> 'm world" where
  "build_dll dll_ext extra_linker_flags w =
    (let w1 = print (''Building game'' @ dll_ext) w;
         build_cmd = dll_build_cmd dll_ext extra_linker_flags;
         body =
           (case subprocess_run build_cmd w1 of
              (Inl e, w2) \<Rightarrow> (Inl e, w2)
            | (Inr _, w2) \<Rightarrow>
                (case rename (path_join OUT_DIR (''game_tmp'' @ dll_ext))
                        (path_join OUT_DIR (''game'' @ dll_ext)) w2 of
                   (Inl e, w3) \<Rightarrow> (Inl e, w3)
                 | (Inr _, w3) \<Rightarrow> (Inr True, w3)))
     in case body of
          (Inl e, w') \<Rightarrow>
            if e = CalledProcessError
            then (Inr False, print ''Shared library build failed.'' w')
            else (Inl e, w')
        | (Inr built, w') \<Rightarrow> (Inr built, w'))"

definition exe_build_cmd :: "string list" where
  "exe_build_cmd =
    [''odin'', ''build'', ''source/main_hot_reload'',
     ''-out:'' @ EXE, ''-strict-style'', ''-vet'', ''-debug'']"

definition build_and_run_binary :: "'m world \<Rightarrow> (exn + bool) \<times> 'm world" where
  "build_and_run_binary w =
    (let w1 = print (''Building '' @ EXE) w
     in case subprocess_run exe_build_cmd w1 of
          (Inl e, w') \<Rightarrow>
            if e = CalledProcessError
            then (Inr False, print ''Executable build failed.'' w')
            else (Inl e, w')
        | (Inr _, w') \<Rightarrow> (Inr True, w'))"

subsection \<open>Process manager\<close>

definition check_output :: "string list \<Rightarrow> 'm world \<Rightarrow> (exn + string) \<times> 'm world" where
  "check_output cmd w = (proc_list w cmd, emit (Check_output cmd) w)"

text \<open>\<^verbatim>\<open>is_binary_running\<close>: \<^verbatim>\<open>except Exception\<close> catches every exception of the query.\<close>

definition is_binary_running :: "'m world \<Rightarrow> bool \<times> 'm world" where
  "is_binary_running w =
    (case (if platform_system w = ''Windows''
           then check_output [''tasklist''] w
           else check_output [''ps'', ''aux''] w) of
       (Inl e, w') \<Rightarrow> (False, w')
     | (Inr result, w') \<Rightarrow> (str_in EXE result, w'))"

text \<open>The environment the host process is started with.\<close>

definition child_env :: "(string \<rightharpoonup> string) \<Rightarrow> (string \<rightharpoonup> string)" where
  "child_env env =
     env(''LD_LIBRARY_PATH'' \<mapsto>
           OUT_DIR @ ''/linux:'' @ (case env ''LD_LIBRARY_PATH'' of None \<Rightarrow> [] | Some v \<Rightarrow> v))"

text \<open>
  \<^verbatim>\<open>subprocess.Popen(argv, env=env)\<close>. The call is recorded. It raises
  \<^verbatim>\<open>FileNotFoundError\<close> when the program is not on disk, and otherwise whatever the
  system answers with; nothing in the script catches either. The script keeps no handle
  of the child and does not wait for it.
\<close>

definition program_path :: "string list \<Rightarrow> string" where
  "program_path argv =
    (case argv of
       [] \<Rightarrow> []
     | prog # args \<Rightarrow> if take 2 prog = ''./'' then drop 2 prog else prog)"

definition popen :: "string list \<Rightarrow> (string \<rightharpoonup> string) \<Rightarrow> 'm world \<Rightarrow> (exn + unit) \<times> 'm world" where
  "popen argv env w =
    (let w1 = emit (Popen argv env) w
     in if disk w1 (program_path argv) = None then (Inl FileNotFoundError, w1)
        else case popen_error w1 argv of
               Some e \<Rightarrow> (Inl e, w1)
             | None \<Rightarrow> (Inr (), w1))"

text \<open>\<^verbatim>\<open>run_binary\<close>: an exception of \<^verbatim>\<open>Popen\<close> escapes it.\<close>

definition run_binary :: "'m world \<Rightarrow> (exn + unit) \<times> 'm world" where
  "run_binary w =
    (case is_binary_running w of
       (running, w1) \<Rightarrow>
         if \<not> running
         then let w2 = print (''Starting '' @ EXE @ ''...'') w1;
                  env = child_env (environ w2)
              in popen [''./'' @ EXE] env w2
         else (Inr (), print (''Hot reloading '' @ EXE @ ''...'') w1))"

definition build_and_run_project :: "string \<Rightarrow> string \<Rightarrow> 'm world \<Rightarrow> (exn + unit) \<times> 'm world" where
  "build_and_run_project dll_ext extra_linker_flags w =
    (case build_dll dll_ext extra_linker_flags w of
       (Inl e, w1) \<Rightarrow> (Inl e, w1)
     | (Inr dll_built, w1) \<Rightarrow>
         (case build_and_run_binary w1 of
            (Inl e, w2) \<Rightarrow> (Inl e, w2)
          | (Inr binary_built, w2) \<Rightarrow>
              if dll_built \<and> binary_built then run_binary w2 else (Inr (), w2)))"

subsection \<open>Watch loop\<close>

text \<open>The first statement of the loop body: poll, and rebuild when the poll says so.\<close>

definition rebuild_if_changed :: "string \<Rightarrow> string \<Rightarrow> 'm world \<Rightarrow> (exn + unit) \<times> 'm world" where
  "rebuild_if_changed dll_ext extra_linker_flags w =
    (case check_for_changes ''source'' w of
       (changed, w1) \<Rightarrow>
         if changed
         then build_and_run_project dll_ext extra_linker_flags
                (print ''Rebuilding due to detected changes...'' w1)
         else (Inr (), w1))"

definition unlink :: "string \<Rightarrow> 'm world \<Rightarrow> 'm world" where
  "unlink p w = (emit (Unlink p) w)\<lparr>disk := (disk w)(p := None)\<rparr>"

text \<open>
  One pass through the body of \<^verbatim>\<open>while True\<close>. It ends with the \<^verbatim>\<open>break\<close>, with an
  exception that escapes the loop, or with \<^verbatim>\<open>time.sleep(1)\<close>.
\<close>

datatype pass = Break | Escaped exn | Slept

definition watch_pass :: "string \<Rightarrow> string \<Rightarrow> 'm world \<Rightarrow> pass \<times> 'm world" where
  "watch_pass dll_ext extra_linker_flags w =
    (case rebuild_if_changed dll_ext extra_linker_flags w of
       (Inl e, w1) \<Rightarrow> (Escaped e, w1)
     | (Inr _, w1) \<Rightarrow>
         if disk w1 EXIT_SIGNAL_FILE \<noteq> None
         then (Break, unlink EXIT_SIGNAL_FILE (print ''Exit signal detected. Exiting...'' w1))
         else (Slept, emit (Sleep 1) w1))"

text \<open>
  \<^verbatim>\<open>watch_for_changes\<close>. The loop has no bound of its own. What happens outside the
  script while it sleeps is given as a list, one change of the world per sleep; the
  result is \<open>None\<close> when the loop is still running after the last of them, \<open>Some (Inr ())\<close>
  when it has returned, and \<open>Some (Inl e)\<close> when \<open>e\<close> has escaped it.
\<close>

fun watch_for_changes ::
  "string \<Rightarrow> string \<Rightarrow> ('m world \<Rightarrow> 'm world) list \<Rightarrow> 'm world \<Rightarrow> (exn + unit) option \<times> 'm world" where
  "watch_for_changes dll_ext extra_linker_flags outside w =
    (case watch_pass dll_ext extra_linker_flags w of
       (Break, w1) \<Rightarrow> (Some (Inr ()), w1)
     | (Escaped e, w1) \<Rightarrow> (Some (Inl e), w1)
     | (Slept, w1) \<Rightarrow>
         (case outside of
            [] \<Rightarrow> (None, w1)
          | change # later \<Rightarrow> watch_for_changes dll_ext extra_linker_flags later (change w1)))"

declare watch_for_changes.simps [simp del]

subsection \<open>The scan as one loop\<close>

text \<open>
  A tracked file is pending when it is on disk and its entry in the snapshot is not its
  current time stamp: it is new (no entry) or modified. This is the condition
  \<^verbatim>\<open>not_checked or changed\<close> of the scan.
\<close>

definition pending :: "'m world \<Rightarrow> string \<Rightarrow> bool" where
  "pending w p = (st_mtime w p \<noteq> None \<and> last_mtimes w p \<noteq> st_mtime w p)"

text \<open>
  The two nested loops, with the \<^verbatim>\<open>continue\<close> and both \<^verbatim>\<open>break\<close>s, visit the tracked
  paths in walk order and stop at the first pending one. \<open>scan_paths\<close> is that single
  loop; \<open>check_for_changes_paths\<close> below proves that it is what the nested loops compute.
\<close>

fun scan_paths :: "string list \<Rightarrow> 'm world \<Rightarrow> bool \<times> 'm world" where
  "scan_paths [] w = (False, w)"
| "scan_paths (filepath # rest) w =
    (case st_mtime w filepath of
       None \<Rightarrow>
         scan_paths rest
           (w\<lparr>trace := trace w @ [Stat filepath], last_mtimes := (last_mtimes w)(filepath := None)\<rparr>)
     | Some mtime \<Rightarrow>
         if last_mtimes w filepath \<noteq> Some mtime
         then (True,
               w\<lparr>trace := trace w @ [Stat filepath, Print (''Detected change in '' @ filepath @ ''.'')],
                 last_mtimes := (last_mtimes w)(filepath \<mapsto> mtime)\<rparr>)
         else scan_paths rest (w\<lparr>trace := trace w @ [Stat filepath]\<rparr>))"

subsection \<open>Concrete worlds\<close>

text \<open>
  A quiet world: nothing below \<^verbatim>\<open>source\<close>, nothing on disk, a compiler that succeeds
  without writing, an empty process listing. The worlds used as examples are updates of it.
\<close>

definition world0 :: "nat world" where
  "world0 =
    \<lparr>last_mtimes = Map.empty,
     os_walk = (\<lambda>top. []),
     st_mtime = (\<lambda>p. None),
     disk = Map.empty,
     odin = (\<lambda>cmd. (0, None)),
     platform_system = ''Linux'',
     proc_list = (\<lambda>cmd. Inr []),
     environ = Map.empty,
     popen_error = (\<lambda>argv. None),
     trace = []\<rparr>"

text \<open>\<^verbatim>\<open>source/b.odin\<close> is in the snapshot and was deleted: the walk no longer lists it.\<close>

definition deleted_world :: "nat world" where
  "deleted_world =
    world0\<lparr>last_mtimes := [''source/b.odin'' \<mapsto> 5],
           os_walk := (\<lambda>top. if top = ''source'' then [(''source'', [], [])] else [])\<rparr>"

text \<open>
  \<^verbatim>\<open>source/b.odin\<close> is in the snapshot and is still listed by the walk, but is gone when
  the scan stats it.
\<close>

definition vanished_world :: "nat world" where
  "vanished_world =
    world0\<lparr>last_mtimes := [''source/b.odin'' \<mapsto> 5],
           os_walk := (\<lambda>top. if top = ''source'' then [(''source'', [], [''b.odin''])] else [])\<rparr>"

text \<open>The snapshot is empty and \<^verbatim>\<open>source/a.odin\<close> is on disk.\<close>

definition new_file_world :: "nat world" where
  "new_file_world =
    world0\<lparr>os_walk := (\<lambda>top. if top = ''source'' then [(''source'', [], [''a.odin''])] else []),
           st_mtime := [''source/a.odin'' \<mapsto> 1]\<rparr>"

text \<open>The snapshot is empty and two files are on disk.\<close>

definition two_new_files_world :: "nat world" where
  "two_new_files_world =
    world0\<lparr>os_walk := (\<lambda>top. if top = ''source''
                             then [(''source'', [], [''a.odin'', ''b.odin''])] else []),
           st_mtime := [''source/a.odin'' \<mapsto> 1, ''source/b.odin'' \<mapsto> 1]\<rparr>"

text \<open>
  \<^verbatim>\<open>source/a.odin\<close> was modified since the snapshot, \<^verbatim>\<open>source/sub/b.odin\<close> is new, and
  \<^verbatim>\<open>source/notes.txt\<close> is not a tracked file.
\<close>

definition two_changes_world :: "nat world" where
  "two_changes_world =
    world0\<lparr>last_mtimes := [''source/a.odin'' \<mapsto> 1],
           os_walk := (\<lambda>top. if top = ''source''
                             then [(''source'', [''sub''], [''notes.txt'', ''a.odin'']),
                                   (''source/sub'', [], [''b.odin''])]
                             else []),
           st_mtime := [''source/a.odin'' \<mapsto> 2, ''source/sub/b.odin'' \<mapsto> 7]\<rparr>"

text \<open>The snapshot agrees with the tree.\<close>

definition settled_world :: "nat world" where
  "settled_world =
    world0\<lparr>last_mtimes := [''source/a.odin'' \<mapsto> 1],
           os_walk := (\<lambda>top. if top = ''source'' then [(''source'', [], [''a.odin''])] else []),
           st_mtime := [''source/a.odin'' \<mapsto> 1]\<rparr>"

text \<open>
  A module built earlier is in place; the compiler fails on the module, leaving a partial
  temporary file, and succeeds on the host executable.
\<close>

definition dll_fails_world :: "nat world" where
  "dll_fails_world =
    world0\<lparr>disk := [''build/hot_reload/game.so'' \<mapsto> ''old module''],
           odin := (\<lambda>cmd. if out_path cmd = Some ''game_hot_reload.bin''
                         then (0, Some ''host'') else (1, Some ''partial''))\<rparr>"

text \<open>Nothing has changed in the tree, and the stop marker is there.\<close>

definition stop_world :: "nat world" where
  "stop_world = settled_world\<lparr>disk := [''exit_signal.tmp'' \<mapsto> []]\<rparr>"

text \<open>A new file and the stop marker at once; the compiler succeeds on both builds.\<close>

definition change_and_stop_world :: "nat world" where
  "change_and_stop_world =
    new_file_world\<lparr>disk := [''exit_signal.tmp'' \<mapsto> []],
                   odin := (\<lambda>cmd. (0, Some ''built''))\<rparr>"

text \<open>The process listing cannot be run.\<close>

definition query_fails_world :: "nat world" where
  "query_fails_world = world0\<lparr>proc_list := (\<lambda>cmd. Inl OSError)\<rparr>"

text \<open>The host is not running, and the search path variable has a value already.\<close>

definition env_world :: "nat world" where
  "env_world = world0\<lparr>environ := [''LD_LIBRARY_PATH'' \<mapsto> ''/opt/lib'', ''HOME'' \<mapsto> ''/root'']\<rparr>"

text \<open>The host is running: the listing names it.\<close>

definition running_world :: "nat world" where
  "running_world = world0\<lparr>proc_list := (\<lambda>cmd. Inr ''dev 412 ./game_hot_reload.bin'')\<rparr>"

text \<open>The command lines of the compiler runs among some events, in order.\<close>

fun compiler_runs :: "event list \<Rightarrow> string list list" where
  "compiler_runs [] = []"
| "compiler_runs (Run cmd # es) = cmd # compiler_runs es"
| "compiler_runs (e # es) = compiler_runs es"

subsection \<open>Properties of the scan\<close>

lemma emit_fields:
  "last_mtimes (emit e w) = last_mtimes w" "st_mtime (emit e w) = st_mtime w"
  "os_walk (emit e w) = os_walk w" "disk (emit e w) = disk w"
  "odin (emit e w) = odin w" "platform_system (emit e w) = platform_system w"
  "proc_list (emit e w) = proc_list w" "environ (emit e w) = environ w"
  "popen_error (emit e w) = popen_error w"
  "trace (emit e w) = trace w @ [e]"
  by (simp_all add: emit_def)

lemma scan_files_paths: "scan_files root files w = scan_paths (tracked_in root files) w"
proof (induction files arbitrary: w)
  case Nil
  show ?case by (simp add: tracked_in_def)
next
  case (Cons f fs)
  show ?case
  proof (cases "endswith f ''.odin''")
    case False
    with Cons show ?thesis by (simp add: tracked_in_def)
  next
    case True
    have tr: "tracked_in root (f # fs) = path_join root f # tracked_in root fs"
      using True by (simp add: tracked_in_def)
    show ?thesis
    proof (cases "st_mtime w (path_join root f)")
      case None
      with True show ?thesis
        by (simp add: tr Let_def emit_def print_def Cons.IH)
    next
      case (Some t)
      with True show ?thesis
        by (cases "last_mtimes w (path_join root f) = Some t")
           (auto simp add: tr Let_def emit_def print_def Cons.IH)
    qed
  qed
qed

lemma scan_paths_append:
  "scan_paths (ps @ qs) w =
     (case scan_paths ps w of (r, w') \<Rightarrow> if r then (True, w') else scan_paths qs w')"
  by (induction ps arbitrary: w) (simp_all split: option.splits)

lemma scan_dirs_paths:
  "scan_dirs walk w = scan_paths (concat (map (\<lambda>(root, dirs, files). tracked_in root files) walk)) w"
proof (induction walk arbitrary: w)
  case Nil
  show ?case by simp
next
  case (Cons entry walk)
  obtain root dirs files where entry: "entry = (root, dirs, files)"
    by (cases entry) auto
  show ?case
    by (simp add: entry scan_files_paths scan_paths_append Cons.IH split: prod.splits)
qed

lemma check_for_changes_paths:
  "check_for_changes source_dir w = scan_paths (tracked_files source_dir w) w"
  by (simp add: check_for_changes_def tracked_files_def scan_dirs_paths)

text \<open>
  One round of the loop: either the file is not pending, its entry becomes its stat
  result (it is dropped when the stat fails, and is left as it is otherwise) and the
  loop goes on; or it is pending, its time stamp is recorded and the loop is left.
\<close>

lemma scan_paths_Cons_cases:
  assumes "scan_paths (p # ps) w = (r, w')"
  obtains
    (skip) w2 where "\<not> pending w p" "scan_paths ps w2 = (r, w')" "pending w2 = pending w"
      "st_mtime w2 = st_mtime w" "trace w2 = trace w @ [Stat p]"
      "last_mtimes w2 = (last_mtimes w)(p := st_mtime w p)"
  | (hit) "pending w p" "r" "st_mtime w' = st_mtime w"
      "trace w' = trace w @ [Stat p, Print (''Detected change in '' @ p @ ''.'')]"
      "last_mtimes w' = (last_mtimes w)(p := st_mtime w p)"
proof (cases "st_mtime w p")
  case None
  define w2 where "w2 = w\<lparr>trace := trace w @ [Stat p], last_mtimes := (last_mtimes w)(p := None)\<rparr>"
  have run: "scan_paths ps w2 = (r, w')"
    using assms None by (simp add: w2_def)
  have same: "pending w2 = pending w"
    using None by (auto simp: pending_def w2_def fun_eq_iff)
  have np: "\<not> pending w p"
    using None by (simp add: pending_def)
  have lm: "last_mtimes w2 = (last_mtimes w)(p := st_mtime w p)"
    using None by (simp add: w2_def)
  show ?thesis
    by (rule skip [of w2, OF np run same _ _ lm]) (simp_all add: w2_def)
next
  case (Some t)
  show ?thesis
  proof (cases "last_mtimes w p = Some t")
    case True
    define w2 where "w2 = w\<lparr>trace := trace w @ [Stat p]\<rparr>"
    have run: "scan_paths ps w2 = (r, w')"
      using assms Some True by (simp add: w2_def)
    have same: "pending w2 = pending w"
      by (simp add: pending_def w2_def fun_eq_iff)
    have np: "\<not> pending w p"
      using Some True by (simp add: pending_def)
    have lm: "last_mtimes w2 = (last_mtimes w)(p := st_mtime w p)"
      using Some True by (simp add: w2_def fun_eq_iff)
    show ?thesis
      by (rule skip [of w2, OF np run same _ _ lm]) (simp_all add: w2_def)
  next
    case False
    have w': "w' = w\<lparr>trace := trace w @ [Stat p, Print (''Detected change in '' @ p @ ''.'')],
        last_mtimes := (last_mtimes w)(p \<mapsto> t)\<rparr>" and r: "r"
      using assms Some False by simp_all
    have pp: "pending w p"
      using Some False by (simp add: pending_def)
    show ?thesis
      by (rule hit [OF pp r]) (simp_all add: w' Some)
  qed
qed

lemma emitted_eqI: "trace w' = trace w @ evs \<Longrightarrow> emitted w w' = evs"
  by (simp add: emitted_def)

lemma scan_paths_frame:
  "scan_paths ps w = (r, w') \<Longrightarrow>
     st_mtime w' = st_mtime w \<and> os_walk w' = os_walk w \<and> disk w' = disk w \<and>
     odin w' = odin w \<and> platform_system w' = platform_system w \<and>
     proc_list w' = proc_list w \<and> environ w' = environ w \<and> popen_error w' = popen_error w"
proof (induction ps arbitrary: w)
  case Nil
  then show ?case by simp
next
  case (Cons p ps)
  show ?case
  proof (cases "st_mtime w p")
    case None
    with Cons.prems have "scan_paths ps
        (w\<lparr>trace := trace w @ [Stat p], last_mtimes := (last_mtimes w)(p := None)\<rparr>) = (r, w')"
      by simp
    from Cons.IH [OF this] show ?thesis by simp
  next
    case (Some t)
    show ?thesis
    proof (cases "last_mtimes w p = Some t")
      case True
      with Some Cons.prems have "scan_paths ps (w\<lparr>trace := trace w @ [Stat p]\<rparr>) = (r, w')"
        by simp
      from Cons.IH [OF this] show ?thesis by simp
    next
      case False
      with Some Cons.prems have "w' = w\<lparr>trace := trace w @ [Stat p, Print (''Detected change in '' @ p @ ''.'')],
        last_mtimes := (last_mtimes w)(p \<mapsto> t)\<rparr>"
        by simp
      then show ?thesis by simp
    qed
  qed
qed

lemma scan_paths_trace:
  "scan_paths ps w = (r, w') \<Longrightarrow> trace w' = trace w @ emitted w w'"
proof (induction ps arbitrary: w)
  case Nil
  then show ?case by (simp add: emitted_def)
next
  case (Cons p ps)
  from Cons.prems show ?case
  proof (cases rule: scan_paths_Cons_cases)
    case (skip w2)
    from Cons.IH [OF skip(2)] have tr: "trace w' = trace w @ Stat p # emitted w2 w'"
      by (simp add: skip(5))
    have "emitted w w' = Stat p # emitted w2 w'"
      using tr by (rule emitted_eqI)
    with tr show ?thesis
      by simp
  next
    case hit
    then show ?thesis by (simp add: emitted_def)
  qed
qed

lemma emitted_step:
  assumes "trace w2 = trace w @ [e]" and "trace w' = trace w2 @ emitted w2 w'"
  shows "emitted w w' = e # emitted w2 w'"
proof (rule emitted_eqI)
  show "trace w' = trace w @ e # emitted w2 w'"
    using assms(2) by (simp add: assms(1))
qed

text \<open>The scan stats tracked files only.\<close>

lemma scan_paths_stats_tracked:
  "scan_paths ps w = (r, w') \<Longrightarrow> Stat q \<in> set (emitted w w') \<Longrightarrow> q \<in> set ps"
proof (induction ps arbitrary: w)
  case Nil
  then show ?case by (simp add: emitted_def)
next
  case (Cons p ps)
  from Cons.prems(1) show ?case
  proof (cases rule: scan_paths_Cons_cases)
    case (skip w2)
    have "emitted w w' = Stat p # emitted w2 w'"
      using skip(5) scan_paths_trace [OF skip(2)] by (rule emitted_step)
    with Cons.prems(2) have "q = p \<or> Stat q \<in> set (emitted w2 w')"
      by auto
    with Cons.IH [OF skip(2)] show ?thesis by auto
  next
    case hit
    with Cons.prems(2) show ?thesis by (simp add: emitted_def)
  qed
qed

text \<open>
  The snapshot after a scan: the entry of every file the scan has stat'ed is the file's
  stat result, every other entry is as before.
\<close>

lemma scan_paths_snapshot:
  "scan_paths ps w = (r, w') \<Longrightarrow>
     last_mtimes w' q = (if Stat q \<in> set (emitted w w') then st_mtime w q else last_mtimes w q)"
proof (induction ps arbitrary: w)
  case Nil
  then show ?case by (simp add: emitted_def)
next
  case (Cons p ps)
  from Cons.prems(1) show ?case
  proof (cases rule: scan_paths_Cons_cases)
    case (skip w2)
    have em: "emitted w w' = Stat p # emitted w2 w'"
      using skip(5) scan_paths_trace [OF skip(2)] by (rule emitted_step)
    have "last_mtimes w' q = (if Stat q \<in> set (emitted w2 w') then st_mtime w2 q else last_mtimes w2 q)"
      by (rule Cons.IH [OF skip(2)])
    then show ?thesis
      by (simp add: em skip(4) skip(6))
  next
    case hit
    then show ?thesis by (simp add: emitted_def)
  qed
qed

text \<open>The scan returns true exactly when some tracked file is pending.\<close>

lemma scan_paths_result:
  "scan_paths ps w = (r, w') \<Longrightarrow> r = (\<exists>p \<in> set ps. pending w p)"
proof (induction ps arbitrary: w)
  case Nil
  then show ?case by simp
next
  case (Cons p ps)
  from Cons.prems(1) show ?case
  proof (cases rule: scan_paths_Cons_cases)
    case (skip w2)
    from Cons.IH [OF skip(2)] show ?thesis
      by (simp add: skip(1) skip(3))
  next
    case hit
    then show ?thesis by simp
  qed
qed

text \<open>
  A scan settles the first pending file, and that file only: afterwards it is no longer
  pending, and every other file is pending exactly if it was.
\<close>

lemma scan_paths_pending:
  "scan_paths ps w = (r, w') \<Longrightarrow>
     pending w' = (case find (pending w) ps of None \<Rightarrow> pending w | Some p \<Rightarrow> (pending w)(p := False))"
proof (induction ps arbitrary: w)
  case Nil
  then show ?case by simp
next
  case (Cons p ps)
  from Cons.prems(1) show ?case
  proof (cases rule: scan_paths_Cons_cases)
    case (skip w2)
    show ?thesis
      using Cons.IH [OF skip(2)] unfolding skip(3) by (simp add: skip(1))
  next
    case hit
    have "pending w' = (pending w)(p := False)"
      by (auto simp: fun_eq_iff pending_def hit(3) hit(5))
    then show ?thesis
      by (simp add: hit(1))
  qed
qed

lemmas scan_defs =
  check_for_changes_def tracked_files_def tracked_in_def emitted_def pending_def
  emit_def print_def path_join_def endswith_def Let_def

lemma check_for_changes_frame:
  "check_for_changes source_dir w = (r, w') \<Longrightarrow>
     st_mtime w' = st_mtime w \<and> os_walk w' = os_walk w \<and> disk w' = disk w \<and>
     odin w' = odin w \<and> platform_system w' = platform_system w \<and>
     proc_list w' = proc_list w \<and> environ w' = environ w \<and> popen_error w' = popen_error w"
  unfolding check_for_changes_paths by (rule scan_paths_frame)

lemma tracked_files_after:
  "check_for_changes source_dir w = (r, w') \<Longrightarrow>
     tracked_files source_dir w' = tracked_files source_dir w"
  by (simp add: tracked_files_def check_for_changes_frame)

lemma check_for_changes_result:
  "fst (check_for_changes source_dir w) = (\<exists>p \<in> set (tracked_files source_dir w). pending w p)"
  unfolding check_for_changes_paths
  by (rule scan_paths_result [OF prod.collapse [symmetric]])

subsection \<open>Runs of the scan on the concrete worlds\<close>

lemma deleted_world_run:
  "check_for_changes ''source'' deleted_world = (False, deleted_world)"
  by (simp add: deleted_world_def world0_def check_for_changes_def)

lemma vanished_world_run:
  "check_for_changes ''source'' vanished_world =
     (False, vanished_world\<lparr>trace := [Stat ''source/b.odin''], last_mtimes := Map.empty\<rparr>)"
  by (simp add: vanished_world_def world0_def check_for_changes_def emit_def print_def
      path_join_def endswith_def Let_def)

lemma new_file_world_run:
  "check_for_changes ''source'' new_file_world =
     (True, new_file_world\<lparr>
        trace := [Stat ''source/a.odin'', Print ''Detected change in source/a.odin.''],
        last_mtimes := [''source/a.odin'' \<mapsto> 1]\<rparr>)"
  by (simp add: new_file_world_def world0_def check_for_changes_def emit_def print_def
      path_join_def endswith_def Let_def)

lemma two_new_files_world_run:
  "check_for_changes ''source'' two_new_files_world =
     (True, two_new_files_world\<lparr>
        trace := [Stat ''source/a.odin'', Print ''Detected change in source/a.odin.''],
        last_mtimes := [''source/a.odin'' \<mapsto> 1]\<rparr>)"
  by (simp add: two_new_files_world_def world0_def check_for_changes_def emit_def print_def
      path_join_def endswith_def Let_def)

lemma two_new_files_world_second_run:
  "fst (check_for_changes ''source'' (snd (check_for_changes ''source'' two_new_files_world)))"
  by (simp add: two_new_files_world_run)
     (simp add: two_new_files_world_def world0_def check_for_changes_def emit_def print_def
      path_join_def endswith_def Let_def)

lemma two_changes_world_run:
  "check_for_changes ''source'' two_changes_world =
     (True, two_changes_world\<lparr>
        trace := [Stat ''source/a.odin'', Print ''Detected change in source/a.odin.''],
        last_mtimes := [''source/a.odin'' \<mapsto> 2]\<rparr>)"
  by (simp add: two_changes_world_def world0_def check_for_changes_def emit_def print_def
      path_join_def endswith_def Let_def)

lemma two_changes_world_second_run:
  "fst (check_for_changes ''source'' (snd (check_for_changes ''source'' two_changes_world)))"
  by (simp add: two_changes_world_run)
     (simp add: two_changes_world_def world0_def check_for_changes_def emit_def print_def
      path_join_def endswith_def Let_def)

lemma settled_world_run:
  "check_for_changes ''source'' settled_world =
     (False, settled_world\<lparr>trace := [Stat ''source/a.odin'']\<rparr>)"
  by (simp add: settled_world_def world0_def check_for_changes_def emit_def print_def
      path_join_def endswith_def Let_def)

lemma settled_world_second_run:
  "check_for_changes ''source'' (settled_world\<lparr>trace := [Stat ''source/a.odin'']\<rparr>) =
     (False, settled_world\<lparr>trace := [Stat ''source/a.odin'', Stat ''source/a.odin'']\<rparr>)"
  by (simp add: settled_world_def world0_def check_for_changes_def emit_def print_def
      path_join_def endswith_def Let_def)

lemma new_file_world_second_run:
  "\<not> fst (check_for_changes ''source'' (snd (check_for_changes ''source'' new_file_world)))"
  by (simp add: new_file_world_run)
     (simp add: new_file_world_def world0_def check_for_changes_def emit_def print_def
      path_join_def endswith_def Let_def)

lemma find_Some_holds: "find P xs = Some x \<Longrightarrow> P x \<and> x \<in> set xs"
  by (induction xs) (auto split: if_splits)

lemma find_None_none: "find P xs = None \<Longrightarrow> x \<in> set xs \<Longrightarrow> \<not> P x"
  by (induction xs) (auto split: if_splits)

text \<open>
  A poll of a settled tree: when the entry of every tracked file the walk lists is the
  file's stat result, the poll returns false and leaves the snapshot as it is.
\<close>

lemma settled_poll:
  assumes sync: "\<forall>p \<in> set (tracked_files source_dir w). last_mtimes w p = st_mtime w p"
    and poll: "check_for_changes source_dir w = (r, w')"
  shows "\<not> r" and "last_mtimes w' = last_mtimes w"
    and "\<forall>p \<in> set (tracked_files source_dir w'). last_mtimes w' p = st_mtime w' p"
proof -
  let ?ps = "tracked_files source_dir w"
  have run: "scan_paths ?ps w = (r, w')"
    using poll by (simp add: check_for_changes_paths)
  have "\<forall>p \<in> set ?ps. \<not> pending w p"
    using sync by (simp add: pending_def)
  with scan_paths_result [OF run] show "\<not> r"
    by simp
  show lm: "last_mtimes w' = last_mtimes w"
  proof (rule ext)
    fix q
    show "last_mtimes w' q = last_mtimes w q"
    proof (cases "Stat q \<in> set (emitted w w')")
      case True
      then have "q \<in> set ?ps"
        by (rule scan_paths_stats_tracked [OF run])
      with sync have "last_mtimes w q = st_mtime w q"
        by blast
      with True show ?thesis
        by (simp add: scan_paths_snapshot [OF run])
    next
      case False
      then show ?thesis
        by (simp add: scan_paths_snapshot [OF run])
    qed
  qed
  have "st_mtime w' = st_mtime w"
    using check_for_changes_frame [OF poll] by simp
  with sync show "\<forall>p \<in> set (tracked_files source_dir w'). last_mtimes w' p = st_mtime w' p"
    by (simp add: tracked_files_after [OF poll] lm)
qed

subsection \<open>What the build steps and the process manager do to the world\<close>

lemma out_path_dll:
  "out_path (dll_build_cmd dll_ext flags) = Some (OUT_DIR @ ''/game_tmp'' @ dll_ext)"
  by (simp add: dll_build_cmd_def OUT_DIR_def)

lemma out_path_exe: "out_path exe_build_cmd = Some EXE"
  by (simp add: exe_build_cmd_def EXE_def)

lemma compiler_output_other:
  "out_path cmd = Some out \<Longrightarrow> p \<noteq> out \<Longrightarrow> compiler_output cmd written d p = d p"
  by (simp add: compiler_output_def split: option.splits)

lemma subprocess_run_fields:
  "fst (subprocess_run cmd w) = (if fst (odin w cmd) \<noteq> 0 then Inl CalledProcessError else Inr ())"
  "trace (snd (subprocess_run cmd w)) = trace w @ [Run cmd]"
  "disk (snd (subprocess_run cmd w)) = compiler_output cmd (snd (odin w cmd)) (disk w)"
  "odin (snd (subprocess_run cmd w)) = odin w"
  "proc_list (snd (subprocess_run cmd w)) = proc_list w"
  "platform_system (snd (subprocess_run cmd w)) = platform_system w"
  "environ (snd (subprocess_run cmd w)) = environ w"
  "last_mtimes (snd (subprocess_run cmd w)) = last_mtimes w"
  by (simp_all add: subprocess_run_def emit_def Let_def split: prod.splits)

lemma rename_fields:
  "fst (rename src dst w) = (if disk w src = None then Inl FileNotFoundError else Inr ())"
  "trace (snd (rename src dst w)) = trace w @ [Rename src dst]"
  "disk (snd (rename src dst w)) =
     (case disk w src of None \<Rightarrow> disk w | Some bytes \<Rightarrow> (disk w)(src := None, dst \<mapsto> bytes))"
  "odin (snd (rename src dst w)) = odin w"
  "proc_list (snd (rename src dst w)) = proc_list w"
  "platform_system (snd (rename src dst w)) = platform_system w"
  "environ (snd (rename src dst w)) = environ w"
  "last_mtimes (snd (rename src dst w)) = last_mtimes w"
  by (simp_all add: rename_def emit_def Let_def split: option.splits)

lemma print_fields:
  "trace (print s w) = trace w @ [Print s]" "disk (print s w) = disk w"
  "odin (print s w) = odin w" "proc_list (print s w) = proc_list w"
  "platform_system (print s w) = platform_system w" "environ (print s w) = environ w"
  "last_mtimes (print s w) = last_mtimes w" "st_mtime (print s w) = st_mtime w"
  "os_walk (print s w) = os_walk w" "popen_error (print s w) = popen_error w"
  by (simp_all add: print_def emit_def)

text \<open>
  \<^verbatim>\<open>build_dll\<close> by the compiler's exit status: a nonzero status gives \<open>False\<close> and no
  rename; status zero gives the rename, which raises when the compiler has left no
  temporary file.
\<close>

lemma build_dll_fields:
  fixes w :: "'m world" and dll_ext flags :: string
  defines "cmd \<equiv> dll_build_cmd dll_ext flags"
  defines "tmp \<equiv> path_join OUT_DIR (''game_tmp'' @ dll_ext)"
  defines "final \<equiv> path_join OUT_DIR (''game'' @ dll_ext)"
  defines "d1 \<equiv> compiler_output (dll_build_cmd dll_ext flags)
                  (snd (odin w (dll_build_cmd dll_ext flags))) (disk w)"
  shows "fst (build_dll dll_ext flags w) =
           (if fst (odin w cmd) \<noteq> 0 then Inr False
            else if d1 tmp = None then Inl FileNotFoundError else Inr True)"
    and "trace (snd (build_dll dll_ext flags w)) =
           trace w @ [Print (''Building game'' @ dll_ext), Run cmd] @
             (if fst (odin w cmd) \<noteq> 0 then [Print ''Shared library build failed.'']
              else [Rename tmp final])"
    and "disk (snd (build_dll dll_ext flags w)) =
           (if fst (odin w cmd) \<noteq> 0 then d1
            else case d1 tmp of None \<Rightarrow> d1 | Some bytes \<Rightarrow> d1(tmp := None, final \<mapsto> bytes))"
    and "odin (snd (build_dll dll_ext flags w)) = odin w"
    and "proc_list (snd (build_dll dll_ext flags w)) = proc_list w"
    and "platform_system (snd (build_dll dll_ext flags w)) = platform_system w"
    and "environ (snd (build_dll dll_ext flags w)) = environ w"
    and "last_mtimes (snd (build_dll dll_ext flags w)) = last_mtimes w"
    and "popen_error (snd (build_dll dll_ext flags w)) = popen_error w"
proof -
  obtain rc written where o: "odin w (dll_build_cmd dll_ext flags) = (rc, written)"
    by (cases "odin w (dll_build_cmd dll_ext flags)") auto
  note defs = build_dll_def subprocess_run_def rename_def print_def emit_def Let_def o
    cmd_def tmp_def final_def d1_def
  show "fst (build_dll dll_ext flags w) =
           (if fst (odin w cmd) \<noteq> 0 then Inr False
            else if d1 tmp = None then Inl FileNotFoundError else Inr True)"
    by (simp add: defs split: option.splits)
  show "trace (snd (build_dll dll_ext flags w)) =
           trace w @ [Print (''Building game'' @ dll_ext), Run cmd] @
             (if fst (odin w cmd) \<noteq> 0 then [Print ''Shared library build failed.'']
              else [Rename tmp final])"
    by (simp add: defs split: option.splits)
  show "disk (snd (build_dll dll_ext flags w)) =
           (if fst (odin w cmd) \<noteq> 0 then d1
            else case d1 tmp of None \<Rightarrow> d1 | Some bytes \<Rightarrow> d1(tmp := None, final \<mapsto> bytes))"
    by (simp add: defs split: option.splits)
  show "odin (snd (build_dll dll_ext flags w)) = odin w"
    by (simp add: defs split: option.splits)
  show "proc_list (snd (build_dll dll_ext flags w)) = proc_list w"
    by (simp add: defs split: option.splits)
  show "platform_system (snd (build_dll dll_ext flags w)) = platform_system w"
    by (simp add: defs split: option.splits)
  show "environ (snd (build_dll dll_ext flags w)) = environ w"
    by (simp add: defs split: option.splits)
  show "last_mtimes (snd (build_dll dll_ext flags w)) = last_mtimes w"
    by (simp add: defs split: option.splits)
  show "popen_error (snd (build_dll dll_ext flags w)) = popen_error w"
    by (simp add: defs split: option.splits)
qed

lemma build_and_run_binary_fields:
  "fst (build_and_run_binary w) = Inr (fst (odin w exe_build_cmd) = 0)"
  "trace (snd (build_and_run_binary w)) =
     trace w @ [Print (''Building '' @ EXE), Run exe_build_cmd] @
       (if fst (odin w exe_build_cmd) \<noteq> 0 then [Print ''Executable build failed.''] else [])"
  "disk (snd (build_and_run_binary w)) =
     compiler_output exe_build_cmd (snd (odin w exe_build_cmd)) (disk w)"
  "odin (snd (build_and_run_binary w)) = odin w"
  "proc_list (snd (build_and_run_binary w)) = proc_list w"
  "platform_system (snd (build_and_run_binary w)) = platform_system w"
  "environ (snd (build_and_run_binary w)) = environ w"
  "last_mtimes (snd (build_and_run_binary w)) = last_mtimes w"
  "popen_error (snd (build_and_run_binary w)) = popen_error w"
  by (simp_all add: build_and_run_binary_def subprocess_run_def print_def emit_def Let_def
      split: prod.splits)

text \<open>The command of the process listing on this platform.\<close>

lemma is_binary_running_fields:
  "fst (is_binary_running w) =
     (case proc_list w (if platform_system w = ''Windows'' then [''tasklist''] else [''ps'', ''aux'']) of
        Inl e \<Rightarrow> False | Inr result \<Rightarrow> str_in EXE result)"
  "trace (snd (is_binary_running w)) =
     trace w @ [Check_output (if platform_system w = ''Windows'' then [''tasklist''] else [''ps'', ''aux''])]"
  "disk (snd (is_binary_running w)) = disk w"
  "environ (snd (is_binary_running w)) = environ w"
  "last_mtimes (snd (is_binary_running w)) = last_mtimes w"
  by (simp_all add: is_binary_running_def check_output_def emit_def split: sum.splits)

lemma program_path_exe: "program_path [''./'' @ EXE] = EXE"
  by (simp add: program_path_def)

lemma run_binary_fields:
  "trace (snd (run_binary w)) =
     trace w @ [Check_output (if platform_system w = ''Windows'' then [''tasklist''] else [''ps'', ''aux''])] @
       (if fst (is_binary_running w)
        then [Print (''Hot reloading '' @ EXE @ ''...'')]
        else [Print (''Starting '' @ EXE @ ''...''), Popen [''./'' @ EXE] (child_env (environ w))])"
  "disk (snd (run_binary w)) = disk w"
  "environ (snd (run_binary w)) = environ w"
  "last_mtimes (snd (run_binary w)) = last_mtimes w"
  "fst (run_binary w) =
     (if fst (is_binary_running w) then Inr ()
      else if disk w EXE = None then Inl FileNotFoundError
      else case popen_error w [''./'' @ EXE] of Some e \<Rightarrow> Inl e | None \<Rightarrow> Inr ())"
  by (simp_all add: run_binary_def is_binary_running_def check_output_def popen_def
      program_path_exe [simplified] print_def emit_def Let_def split: sum.splits option.splits)

lemma unlink_fields:
  "trace (unlink p w) = trace w @ [Unlink p]" "disk (unlink p w) p = None"
  "disk (unlink p w) = (disk w)(p := None)"
  by (simp_all add: unlink_def emit_def)

lemma compiler_runs_append: "compiler_runs (xs @ ys) = compiler_runs xs @ compiler_runs ys"
  by (induction xs rule: compiler_runs.induct) simp_all

lemma build_dll_disk_other:
  assumes "p \<noteq> path_join OUT_DIR (''game_tmp'' @ dll_ext)"
    and "p \<noteq> path_join OUT_DIR (''game'' @ dll_ext)"
  shows "disk (snd (build_dll dll_ext flags w)) p = disk w p"
proof -
  have "compiler_output (dll_build_cmd dll_ext flags) written (disk w) p = disk w p" for written
    using assms(1) by (simp add: compiler_output_other [OF out_path_dll] path_join_def)
  then show ?thesis
    using assms by (simp add: build_dll_fields split: option.splits)
qed

text \<open>
  \<^verbatim>\<open>build_and_run_project\<close> when \<^verbatim>\<open>build_dll\<close> returns: the executable is built next, and
  the run step follows exactly when both builds have succeeded.
\<close>

lemma build_and_run_project_fields:
  assumes "fst (build_dll dll_ext flags w) = Inr dll_built"
  shows "fst (build_and_run_project dll_ext flags w) =
           (if dll_built \<and> fst (odin w exe_build_cmd) = 0 \<and> \<not> fst (is_binary_running w)
            then if disk (snd (build_and_run_project dll_ext flags w)) EXE = None
                 then Inl FileNotFoundError
                 else case popen_error w [''./'' @ EXE] of Some e \<Rightarrow> Inl e | None \<Rightarrow> Inr ()
            else Inr ())"
    and "trace (snd (build_and_run_project dll_ext flags w)) =
           trace w @ [Print (''Building game'' @ dll_ext), Run (dll_build_cmd dll_ext flags)] @
             (if dll_built
              then [Rename (path_join OUT_DIR (''game_tmp'' @ dll_ext))
                      (path_join OUT_DIR (''game'' @ dll_ext))]
              else [Print ''Shared library build failed.'']) @
             [Print (''Building '' @ EXE), Run exe_build_cmd] @
             (if fst (odin w exe_build_cmd) \<noteq> 0 then [Print ''Executable build failed.''] else []) @
             (if dll_built \<and> fst (odin w exe_build_cmd) = 0
              then [Check_output (if platform_system w = ''Windows''
                                  then [''tasklist''] else [''ps'', ''aux''])] @
                   (if fst (is_binary_running w)
                    then [Print (''Hot reloading '' @ EXE @ ''...'')]
                    else [Print (''Starting '' @ EXE @ ''...''),
                          Popen [''./'' @ EXE] (child_env (environ w))])
              else [])"
    and "disk (snd (build_and_run_project dll_ext flags w)) =
           compiler_output exe_build_cmd (snd (odin w exe_build_cmd))
             (disk (snd (build_dll dll_ext flags w)))"
proof -
  define w1 where "w1 = snd (build_dll dll_ext flags w)"
  define w2 where "w2 = snd (build_and_run_binary w1)"
  have b1: "build_dll dll_ext flags w = (Inr dll_built, w1)"
    using assms by (simp add: w1_def prod_eq_iff)
  have o1: "odin w1 = odin w" and p1: "proc_list w1 = proc_list w"
    and s1: "platform_system w1 = platform_system w" and e1: "environ w1 = environ w"
    by (simp_all add: w1_def build_dll_fields)
  have b2: "build_and_run_binary w1 = (Inr (fst (odin w exe_build_cmd) = 0), w2)"
    by (simp add: w2_def prod_eq_iff build_and_run_binary_fields o1)
  have rc: "dll_built = (fst (odin w (dll_build_cmd dll_ext flags)) = 0)"
    using assms by (simp add: build_dll_fields split: if_splits)
  have res: "build_and_run_project dll_ext flags w =
      (if dll_built \<and> fst (odin w exe_build_cmd) = 0 then run_binary w2 else (Inr (), w2))"
    by (simp add: build_and_run_project_def b1 b2)
  have pe: "popen_error w2 = popen_error w"
    by (simp add: w2_def w1_def build_and_run_binary_fields build_dll_fields)
  have t1: "trace w1 =
      trace w @ [Print (''Building game'' @ dll_ext), Run (dll_build_cmd dll_ext flags)] @
        (if dll_built
         then [Rename (path_join OUT_DIR (''game_tmp'' @ dll_ext))
                 (path_join OUT_DIR (''game'' @ dll_ext))]
         else [Print ''Shared library build failed.''])"
    by (simp add: w1_def build_dll_fields rc)
  have t2: "trace w2 =
      trace w1 @ [Print (''Building '' @ EXE), Run exe_build_cmd] @
        (if fst (odin w exe_build_cmd) \<noteq> 0 then [Print ''Executable build failed.''] else [])"
    by (simp add: w2_def build_and_run_binary_fields o1)
  have p2: "proc_list w2 = proc_list w" and s2: "platform_system w2 = platform_system w"
    and e2: "environ w2 = environ w"
    by (simp_all add: w2_def build_and_run_binary_fields p1 s1 e1)
  have run: "fst (is_binary_running w2) = fst (is_binary_running w)"
    by (simp add: is_binary_running_fields p2 s2)
  show "fst (build_and_run_project dll_ext flags w) =
           (if dll_built \<and> fst (odin w exe_build_cmd) = 0 \<and> \<not> fst (is_binary_running w)
            then if disk (snd (build_and_run_project dll_ext flags w)) EXE = None
                 then Inl FileNotFoundError
                 else case popen_error w [''./'' @ EXE] of Some e \<Rightarrow> Inl e | None \<Rightarrow> Inr ()
            else Inr ())"
    by (simp add: res run_binary_fields run pe)
  show "trace (snd (build_and_run_project dll_ext flags w)) =
           trace w @ [Print (''Building game'' @ dll_ext), Run (dll_build_cmd dll_ext flags)] @
             (if dll_built
              then [Rename (path_join OUT_DIR (''game_tmp'' @ dll_ext))
                      (path_join OUT_DIR (''game'' @ dll_ext))]
              else [Print ''Shared library build failed.'']) @
             [Print (''Building '' @ EXE), Run exe_build_cmd] @
             (if fst (odin w exe_build_cmd) \<noteq> 0 then [Print ''Executable build failed.''] else []) @
             (if dll_built \<and> fst (odin w exe_build_cmd) = 0
              then [Check_output (if platform_system w = ''Windows''
                                  then [''tasklist''] else [''ps'', ''aux''])] @
                   (if fst (is_binary_running w)
                    then [Print (''Hot reloading '' @ EXE @ ''...'')]
                    else [Print (''Starting '' @ EXE @ ''...''),
                          Popen [''./'' @ EXE] (child_env (environ w))])
              else [])"
    by (simp add: res run_binary_fields run t2 t1 s2 e2)
  show "disk (snd (build_and_run_project dll_ext flags w)) =
           compiler_output exe_build_cmd (snd (odin w exe_build_cmd))
             (disk (snd (build_dll dll_ext flags w)))"
    by (simp add: res run_binary_fields w2_def build_and_run_binary_fields o1 [unfolded w1_def] w1_def)
qed

lemma build_and_run_project_returns:
  assumes "fst (build_and_run_project dll_ext flags w) = Inr u"
  shows "\<exists>dll_built. fst (build_dll dll_ext flags w) = Inr dll_built"
proof -
  obtain r1 w1 where b1: "build_dll dll_ext flags w = (r1, w1)"
    by (cases "build_dll dll_ext flags w") auto
  show ?thesis
  proof (cases r1)
    case (Inl e)
    with b1 have "fst (build_and_run_project dll_ext flags w) = Inl e"
      by (simp add: build_and_run_project_def)
    with assms show ?thesis by simp
  next
    case (Inr b)
    with b1 show ?thesis by simp
  qed
qed

lemma build_and_run_project_runs:
  assumes "fst (build_dll dll_ext flags w) = Inr dll_built"
  shows "compiler_runs (emitted w (snd (build_and_run_project dll_ext flags w))) =
           [dll_build_cmd dll_ext flags, exe_build_cmd]"
  by (simp add: emitted_def build_and_run_project_fields(2) [OF assms] compiler_runs_append)

lemma build_and_run_project_disk_other:
  assumes "fst (build_dll dll_ext flags w) = Inr dll_built"
    and "p \<noteq> path_join OUT_DIR (''game_tmp'' @ dll_ext)"
    and "p \<noteq> path_join OUT_DIR (''game'' @ dll_ext)"
    and "p \<noteq> EXE"
  shows "disk (snd (build_and_run_project dll_ext flags w)) p = disk w p"
  using assms(4)
  by (simp add: build_and_run_project_fields(3) [OF assms(1)]
      compiler_output_other [OF out_path_exe] build_dll_disk_other [OF assms(2,3)])

text \<open>
  After \<^verbatim>\<open>populate_last_mtimes\<close> has returned, the snapshot agrees with the tree: the
  entry of every tracked file is the file's stat result.
\<close>

lemma stat_all_result:
  "stat_all ps d w = (Inr d', w') \<Longrightarrow>
     (\<forall>q. d' q = (if q \<in> set ps then st_mtime w q else d q)) \<and>
     st_mtime w' = st_mtime w \<and> os_walk w' = os_walk w"
proof (induction ps arbitrary: d w)
  case Nil
  then show ?case by simp
next
  case (Cons p ps)
  show ?case
  proof (cases "st_mtime w p")
    case None
    with Cons.prems show ?thesis
      by (simp add: Let_def emit_fields)
  next
    case (Some t)
    with Cons.prems have "stat_all ps (d(p \<mapsto> t)) (emit (Stat p) w) = (Inr d', w')"
      by (simp add: Let_def emit_fields)
    from Cons.IH [OF this] Some show ?thesis
      by (auto simp add: emit_fields)
  qed
qed

lemma populate_last_mtimes_settles:
  assumes "populate_last_mtimes source_dir w = (Inr (), w')"
  shows "\<forall>p \<in> set (tracked_files source_dir w'). last_mtimes w' p = st_mtime w' p"
proof -
  obtain r w1 where run: "stat_all (tracked_files source_dir w) Map.empty w = (r, w1)"
    by (cases "stat_all (tracked_files source_dir w) Map.empty w") auto
  show ?thesis
  proof (cases r)
    case (Inl e)
    with run assms show ?thesis
      by (simp add: populate_last_mtimes_def)
  next
    case (Inr d)
    with run assms have w': "w' = w1\<lparr>last_mtimes := d\<rparr>"
      by (simp add: populate_last_mtimes_def)
    from stat_all_result [OF run [unfolded Inr]] show ?thesis
      by (simp add: w' tracked_files_def)
  qed
qed

lemma watch_breaks:
  assumes "rebuild_if_changed dll_ext flags w = (Inr (), w1)"
    and "disk w1 EXIT_SIGNAL_FILE \<noteq> None"
  shows "watch_for_changes dll_ext flags outside w =
           (Some (Inr ()), unlink EXIT_SIGNAL_FILE (print ''Exit signal detected. Exiting...'' w1))"
  using assms by (simp add: watch_for_changes.simps watch_pass_def)

lemma dll_fails_world_build:
  "fst (build_dll ''.so'' ''-Wl,-rpath=$ORIGIN/linux'' dll_fails_world) = Inr False"
  by (simp add: build_dll_fields out_path_dll OUT_DIR_def dll_fails_world_def world0_def)

lemma stop_world_run:
  "check_for_changes ''source'' stop_world = (False, stop_world\<lparr>trace := [Stat ''source/a.odin'']\<rparr>)"
  by (simp add: stop_world_def settled_world_def world0_def check_for_changes_def emit_def print_def
      path_join_def endswith_def Let_def)

lemma change_and_stop_world_run:
  "fst (check_for_changes ''source'' change_and_stop_world)"
  by (simp add: change_and_stop_world_def new_file_world_def world0_def check_for_changes_def
      emit_def print_def path_join_def endswith_def Let_def)

section \<open>The claims about the change detector\<close>

text \<open>
  What the \<^verbatim>\<open>FileNotFoundError\<close> handler of the scan does: when the scan stats a path and
  the stat raises not-found, the path has no entry after the call. The value returned
  does not depend on it: it is true exactly when some tracked file listed by the walk is
  on disk with a time stamp that is not its entry (a new or a modified file).
\<close>

lemma stat_not_found_drops_entry:
  assumes "check_for_changes source_dir w = (r, w')"
    and "Stat p \<in> set (emitted w w')"
    and "st_mtime w p = None"
  shows "last_mtimes w' p = None \<and>
         r = (\<exists>q \<in> set (tracked_files source_dir w). pending w q)"
proof -
  have run: "scan_paths (tracked_files source_dir w) w = (r, w')"
    using assms(1) by (simp add: check_for_changes_paths)
  have "last_mtimes w' p = None"
    using assms(2,3) by (simp add: scan_paths_snapshot [OF run])
  moreover have "r = (\<exists>q \<in> set (tracked_files source_dir w). pending w q)"
    by (rule scan_paths_result [OF run])
  ultimately show ?thesis
    by (rule conjI)
qed

lemma stat_not_found_drops_entry_example:
  "Stat ''source/b.odin''
     \<in> set (emitted vanished_world (snd (check_for_changes ''source'' vanished_world))) \<and>
   st_mtime vanished_world ''source/b.odin'' = None \<and>
   last_mtimes vanished_world ''source/b.odin'' = Some 5 \<and>
   last_mtimes (snd (check_for_changes ''source'' vanished_world)) ''source/b.odin'' = None \<and>
   \<not> fst (check_for_changes ''source'' vanished_world)"
proof -
  have h1: "Stat ''source/b.odin''
     \<in> set (emitted vanished_world (snd (check_for_changes ''source'' vanished_world)))"
    by (simp add: vanished_world_run emitted_def) (simp add: vanished_world_def world0_def)
  have h2: "st_mtime vanished_world ''source/b.odin'' = None"
    by (simp add: vanished_world_def world0_def)
  have h3: "last_mtimes vanished_world ''source/b.odin'' = Some 5"
    by (simp add: vanished_world_def world0_def)
  have h4: "\<not> fst (check_for_changes ''source'' vanished_world)"
    by (simp add: vanished_world_run)
  from stat_not_found_drops_entry [OF prod.collapse [symmetric] h1 h2] h1 h2 h3 h4
  show ?thesis by blast
qed

text \<open>
  C1. The claim is that after the deletion of a tracked file of the snapshot the next
  poll returns true and the file's entry is gone. The code does not do that. Here
  \<^verbatim>\<open>source/b.odin\<close> is in the snapshot and has been deleted, so the walk does not list
  it and the scan never reaches the handler that would drop its entry: the poll returns
  false and the entry is still in the snapshot. (When the file is still listed and the
  stat fails, the handler drops the entry, but the poll returns false as well: see
  \<open>stat_not_found_drops_entry_example\<close>.)
\<close>

theorem C1_deleted_file_not_detected:
  "last_mtimes deleted_world ''source/b.odin'' = Some 5 \<and>
   st_mtime deleted_world ''source/b.odin'' = None \<and>
   \<not> fst (check_for_changes ''source'' deleted_world) \<and>
   last_mtimes (snd (check_for_changes ''source'' deleted_world)) ''source/b.odin'' = Some 5"
  by (simp add: deleted_world_run) (simp add: deleted_world_def world0_def)

text \<open>
  When a poll returns, the entry of every file the scan has inspected (every path it
  has stat'ed) is the file's current stat result, also when the scan stopped at the
  first change. No new or modified file is skipped: when a tracked file is pending
  before the poll, the poll returns true, and either the file's entry is now its
  current time stamp, or the file is still pending and the next poll returns true.
\<close>

lemma inspected_entries_current:
  assumes "check_for_changes source_dir w = (r, w')"
  shows "(\<forall>p. Stat p \<in> set (emitted w w') \<longrightarrow> last_mtimes w' p = st_mtime w' p) \<and>
         (\<forall>p \<in> set (tracked_files source_dir w). pending w p \<longrightarrow>
            r \<and> (last_mtimes w' p = st_mtime w' p \<or>
                 pending w' p \<and> fst (check_for_changes source_dir w')))"
proof -
  let ?ps = "tracked_files source_dir w"
  have run: "scan_paths ?ps w = (r, w')"
    using assms by (simp add: check_for_changes_paths)
  have st: "st_mtime w' = st_mtime w"
    using scan_paths_frame [OF run] by simp
  have snap: "last_mtimes w' q =
      (if Stat q \<in> set (emitted w w') then st_mtime w q else last_mtimes w q)" for q
    by (rule scan_paths_snapshot [OF run])
  have res: "r = (\<exists>p \<in> set ?ps. pending w p)"
    by (rule scan_paths_result [OF run])
  have nxt: "fst (check_for_changes source_dir w') = (\<exists>p \<in> set ?ps. pending w' p)"
    by (simp add: check_for_changes_result tracked_files_after [OF assms])
  have a: "\<forall>p. Stat p \<in> set (emitted w w') \<longrightarrow> last_mtimes w' p = st_mtime w' p"
    by (simp add: snap st)
  have b: "\<forall>p \<in> set ?ps. pending w p \<longrightarrow>
      r \<and> (last_mtimes w' p = st_mtime w' p \<or>
           pending w' p \<and> fst (check_for_changes source_dir w'))"
  proof (intro ballI impI)
    fix p
    assume p: "p \<in> set ?ps" and pp: "pending w p"
    have r: "r"
      using res p pp by blast
    show "r \<and> (last_mtimes w' p = st_mtime w' p \<or>
           pending w' p \<and> fst (check_for_changes source_dir w'))"
    proof (cases "Stat p \<in> set (emitted w w')")
      case True
      with a have "last_mtimes w' p = st_mtime w' p"
        by blast
      with r show ?thesis by simp
    next
      case False
      then have "last_mtimes w' p = last_mtimes w p"
        by (simp add: snap)
      with pp have still: "pending w' p"
        by (simp add: pending_def st)
      with p nxt have "fst (check_for_changes source_dir w')"
        by blast
      with r still show ?thesis by simp
    qed
  qed
  from a b show ?thesis
    by (rule conjI)
qed

lemma inspected_entries_current_example:
  "Stat ''source/a.odin''
     \<in> set (emitted two_changes_world (snd (check_for_changes ''source'' two_changes_world))) \<and>
   last_mtimes (snd (check_for_changes ''source'' two_changes_world)) ''source/a.odin'' = Some 2 \<and>
   st_mtime (snd (check_for_changes ''source'' two_changes_world)) ''source/a.odin'' = Some 2 \<and>
   ''source/sub/b.odin'' \<in> set (tracked_files ''source'' two_changes_world) \<and>
   pending two_changes_world ''source/sub/b.odin'' \<and>
   fst (check_for_changes ''source'' two_changes_world) \<and>
   pending (snd (check_for_changes ''source'' two_changes_world)) ''source/sub/b.odin'' \<and>
   fst (check_for_changes ''source'' (snd (check_for_changes ''source'' two_changes_world)))"
proof -
  let ?w' = "snd (check_for_changes ''source'' two_changes_world)"
  have h1: "Stat ''source/a.odin'' \<in> set (emitted two_changes_world ?w')"
    by (simp add: two_changes_world_run emitted_def) (simp add: two_changes_world_def world0_def)
  have h2: "st_mtime ?w' ''source/a.odin'' = Some 2"
    by (simp add: two_changes_world_run) (simp add: two_changes_world_def world0_def)
  have h3: "''source/sub/b.odin'' \<in> set (tracked_files ''source'' two_changes_world)"
    by (simp add: two_changes_world_def world0_def tracked_files_def tracked_in_def
        path_join_def endswith_def)
  have h4: "pending two_changes_world ''source/sub/b.odin''"
    by (simp add: two_changes_world_def world0_def pending_def)
  have h5: "last_mtimes ?w' ''source/sub/b.odin'' \<noteq> st_mtime ?w' ''source/sub/b.odin''"
    by (simp add: two_changes_world_run) (simp add: two_changes_world_def world0_def)
  from inspected_entries_current
    [where source_dir = "''source''" and w = two_changes_world, OF prod.collapse [symmetric]]
  have "last_mtimes ?w' ''source/a.odin'' = st_mtime ?w' ''source/a.odin''"
    and "fst (check_for_changes ''source'' two_changes_world) \<and>
         (last_mtimes ?w' ''source/sub/b.odin'' = st_mtime ?w' ''source/sub/b.odin'' \<or>
          pending ?w' ''source/sub/b.odin'' \<and> fst (check_for_changes ''source'' ?w'))"
    using h1 h3 h4 by blast+
  with h1 h2 h3 h4 h5 show ?thesis
    by simp
qed

text \<open>
  C3. The claim is that the entries of the inspected files are current when the scan
  returns, so that no file change is silently skipped. The first half holds on the
  code (\<open>inspected_entries_current\<close>), and with it the second half for new and modified
  files. A deletion is skipped: here \<^verbatim>\<open>source/b.odin\<close> is in the snapshot and is gone
  when the scan inspects it; the scan drops its entry, the poll returns false, and the
  next poll returns false too, so the change is never reported.
\<close>

theorem C3_vanished_file_skipped:
  "last_mtimes vanished_world ''source/b.odin'' = Some 5 \<and>
   st_mtime vanished_world ''source/b.odin'' = None \<and>
   Stat ''source/b.odin''
     \<in> set (emitted vanished_world (snd (check_for_changes ''source'' vanished_world))) \<and>
   \<not> fst (check_for_changes ''source'' vanished_world) \<and>
   last_mtimes (snd (check_for_changes ''source'' vanished_world)) ''source/b.odin'' = None \<and>
   \<not> fst (check_for_changes ''source'' (snd (check_for_changes ''source'' vanished_world)))"
proof -
  have "\<not> fst (check_for_changes ''source''
      (vanished_world\<lparr>trace := [Stat ''source/b.odin''], last_mtimes := Map.empty\<rparr>))"
    by (simp add: vanished_world_def world0_def check_for_changes_def emit_def print_def
        path_join_def endswith_def Let_def)
  then show ?thesis
    by (simp add: vanished_world_run emitted_def) (simp add: vanished_world_def world0_def)
qed

text \<open>
  C4, as amended. The claim says that two polls in succession return false and leave the
  snapshot unchanged for every state of the file tree. That holds when the snapshot
  agrees with the tree, as it does after \<^verbatim>\<open>populate_last_mtimes\<close> or once every change has
  been recorded: if the entry of every tracked file the walk lists is the file's stat
  result, then two polls in succession return false, and the snapshot is the same map
  before and after each of them.
\<close>

theorem C4_settled_polls_idempotent:
  assumes "\<forall>p \<in> set (tracked_files source_dir w). last_mtimes w p = st_mtime w p"
    and "check_for_changes source_dir w = (r1, w1)"
    and "check_for_changes source_dir w1 = (r2, w2)"
  shows "\<not> r1 \<and> \<not> r2 \<and> last_mtimes w1 = last_mtimes w \<and> last_mtimes w2 = last_mtimes w1"
proof -
  note first = settled_poll [OF assms(1) assms(2)]
  note second = settled_poll [OF first(3) assms(3)]
  from first(1,2) second(1,2) show ?thesis
    by simp
qed

theorem C4_witness:
  "tracked_files ''source'' settled_world = [''source/a.odin''] \<and>
   last_mtimes settled_world ''source/a.odin'' = st_mtime settled_world ''source/a.odin'' \<and>
   \<not> fst (check_for_changes ''source'' settled_world) \<and>
   \<not> fst (check_for_changes ''source'' (snd (check_for_changes ''source'' settled_world))) \<and>
   last_mtimes (snd (check_for_changes ''source'' settled_world)) = last_mtimes settled_world \<and>
   last_mtimes (snd (check_for_changes ''source'' (snd (check_for_changes ''source'' settled_world))))
     = last_mtimes settled_world"
proof -
  have h1: "tracked_files ''source'' settled_world = [''source/a.odin'']"
    by (simp add: settled_world_def world0_def tracked_files_def tracked_in_def
        path_join_def endswith_def)
  have h2: "last_mtimes settled_world ''source/a.odin'' = st_mtime settled_world ''source/a.odin''"
    by (simp add: settled_world_def world0_def)
  have sync: "\<forall>p \<in> set (tracked_files ''source'' settled_world).
      last_mtimes settled_world p = st_mtime settled_world p"
    using h2 by (simp add: h1)
  from C4_settled_polls_idempotent [OF sync prod.collapse [symmetric] prod.collapse [symmetric]]
    h1 h2
  show ?thesis by simp
qed

text \<open>
  The claim C4 as it is written fails from the script's initial state: the snapshot is
  empty and \<^verbatim>\<open>source/a.odin\<close> is on disk; with no change of the file system at all, the
  first of the two polls returns true and adds an entry to the snapshot.
\<close>

theorem C4_counterexample:
  "last_mtimes new_file_world = Map.empty \<and>
   fst (check_for_changes ''source'' new_file_world) \<and>
   last_mtimes (snd (check_for_changes ''source'' new_file_world)) ''source/a.odin'' = Some 1"
  by (simp add: new_file_world_run) (simp add: new_file_world_def world0_def)

text \<open>
  C6, as amended. The claim says that for every tracked file on disk that has no entry,
  the poll returns true and records the file's time stamp, and that the next poll
  returns false. The scan stops at the first pending file, so it records one file per
  poll. For a tracked file listed by the walk that is on disk and has no entry: the poll
  returns true; it records the time stamp of the first pending file in walk order, and
  of that one only: every other pending file keeps the entry it had and stays pending,
  and then the next poll returns true again; when the file is the only pending one, its
  time stamp is recorded and the next poll, with no further change, returns false.
\<close>

theorem C6_new_file_detected:
  assumes "check_for_changes source_dir w = (r, w')"
    and "p \<in> set (tracked_files source_dir w)"
    and "st_mtime w p = Some t"
    and "last_mtimes w p = None"
  shows "r \<and>
         (\<exists>q. find (pending w) (tracked_files source_dir w) = Some q \<and>
              last_mtimes w' q = st_mtime w q \<and>
              (\<forall>p'. pending w p' \<and> p' \<noteq> q \<longrightarrow>
                    last_mtimes w' p' = last_mtimes w p' \<and> pending w' p') \<and>
              ((\<exists>p' \<in> set (tracked_files source_dir w). pending w p' \<and> p' \<noteq> q) \<longrightarrow>
                 fst (check_for_changes source_dir w'))) \<and>
         ((\<forall>q \<in> set (tracked_files source_dir w). pending w q \<longrightarrow> q = p) \<longrightarrow>
            last_mtimes w' p = Some t \<and> \<not> fst (check_for_changes source_dir w'))"
proof -
  let ?ps = "tracked_files source_dir w"
  have run: "scan_paths ?ps w = (r, w')"
    using assms(1) by (simp add: check_for_changes_paths)
  have st: "st_mtime w' = st_mtime w"
    using scan_paths_frame [OF run] by simp
  have nxt: "fst (check_for_changes source_dir w') = (\<exists>x \<in> set ?ps. pending w' x)"
    by (simp add: check_for_changes_result tracked_files_after [OF assms(1)])
  have pp: "pending w p"
    using assms(3,4) by (simp add: pending_def)
  have r: "r"
    using scan_paths_result [OF run] assms(2) pp by blast
  obtain q where q: "find (pending w) ?ps = Some q"
    using find_None_none [of "pending w" ?ps p] assms(2) pp
    by (cases "find (pending w) ?ps") auto
  have pq: "pending w q" and qs: "q \<in> set ?ps"
    using find_Some_holds [OF q] by simp_all
  have pend': "pending w' = (pending w)(q := False)"
    using scan_paths_pending [OF run] by (simp add: q)
  then have "\<not> pending w' q"
    by simp
  with pq have rec: "last_mtimes w' q = st_mtime w q"
    by (simp add: pending_def st)
  have others: "\<forall>p'. pending w p' \<and> p' \<noteq> q \<longrightarrow>
      last_mtimes w' p' = last_mtimes w p' \<and> pending w' p'"
  proof (intro allI impI)
    fix p'
    assume a: "pending w p' \<and> p' \<noteq> q"
    then have still: "pending w' p'"
      by (simp add: pend')
    then have "last_mtimes w' p' \<noteq> st_mtime w p'"
      by (simp add: pending_def st)
    then have "last_mtimes w' p' = last_mtimes w p'"
      using scan_paths_snapshot [OF run, of p'] by (simp split: if_splits)
    with still show "last_mtimes w' p' = last_mtimes w p' \<and> pending w' p'"
      by simp
  qed
  have again: "(\<exists>p' \<in> set ?ps. pending w p' \<and> p' \<noteq> q) \<longrightarrow> fst (check_for_changes source_dir w')"
    using others nxt by blast
  have only: "(\<forall>x \<in> set ?ps. pending w x \<longrightarrow> x = p) \<longrightarrow>
      last_mtimes w' p = Some t \<and> \<not> fst (check_for_changes source_dir w')"
  proof
    assume o: "\<forall>x \<in> set ?ps. pending w x \<longrightarrow> x = p"
    with pq qs have qp: "q = p"
      by blast
    have "\<forall>x \<in> set ?ps. \<not> pending w' x"
      using o by (auto simp: pend' qp)
    then have "\<not> fst (check_for_changes source_dir w')"
      by (simp add: nxt)
    moreover have "last_mtimes w' p = Some t"
      using rec assms(3) by (simp add: qp)
    ultimately show "last_mtimes w' p = Some t \<and> \<not> fst (check_for_changes source_dir w')"
      by simp
  qed
  from r q rec others again only show ?thesis
    by blast
qed

theorem C6_witness:
  "tracked_files ''source'' new_file_world = [''source/a.odin''] \<and>
   st_mtime new_file_world ''source/a.odin'' = Some 1 \<and>
   last_mtimes new_file_world ''source/a.odin'' = None \<and>
   fst (check_for_changes ''source'' new_file_world) \<and>
   last_mtimes (snd (check_for_changes ''source'' new_file_world)) ''source/a.odin'' = Some 1 \<and>
   \<not> fst (check_for_changes ''source'' (snd (check_for_changes ''source'' new_file_world))) \<and>
   find (pending two_changes_world) (tracked_files ''source'' two_changes_world)
     = Some ''source/a.odin'' \<and>
   st_mtime two_changes_world ''source/sub/b.odin'' = Some 7 \<and>
   last_mtimes two_changes_world ''source/sub/b.odin'' = None \<and>
   fst (check_for_changes ''source'' two_changes_world) \<and>
   last_mtimes (snd (check_for_changes ''source'' two_changes_world)) ''source/a.odin'' = Some 2 \<and>
   last_mtimes (snd (check_for_changes ''source'' two_changes_world)) ''source/sub/b.odin'' = None \<and>
   pending (snd (check_for_changes ''source'' two_changes_world)) ''source/sub/b.odin'' \<and>
   fst (check_for_changes ''source'' (snd (check_for_changes ''source'' two_changes_world)))"
proof -
  have h1: "tracked_files ''source'' new_file_world = [''source/a.odin'']"
    by (simp add: new_file_world_def world0_def tracked_files_def tracked_in_def
        path_join_def endswith_def)
  have h2: "st_mtime new_file_world ''source/a.odin'' = Some 1"
    by (simp add: new_file_world_def world0_def)
  have h3: "last_mtimes new_file_world ''source/a.odin'' = None"
    by (simp add: new_file_world_def world0_def)
  have mem: "''source/a.odin'' \<in> set (tracked_files ''source'' new_file_world)"
    by (simp add: h1)
  have only: "\<forall>q \<in> set (tracked_files ''source'' new_file_world).
      pending new_file_world q \<longrightarrow> q = ''source/a.odin''"
    by (simp add: h1)
  from C6_new_file_detected [OF prod.collapse [symmetric] mem h2 h3] only
  have one: "fst (check_for_changes ''source'' new_file_world) \<and>
      last_mtimes (snd (check_for_changes ''source'' new_file_world)) ''source/a.odin'' = Some 1 \<and>
      \<not> fst (check_for_changes ''source'' (snd (check_for_changes ''source'' new_file_world)))"
    by blast
  let ?w' = "snd (check_for_changes ''source'' two_changes_world)"
  have t: "tracked_files ''source'' two_changes_world = [''source/a.odin'', ''source/sub/b.odin'']"
    by (simp add: two_changes_world_def world0_def tracked_files_def tracked_in_def
        path_join_def endswith_def)
  have pa: "pending two_changes_world ''source/a.odin''"
    and pb: "pending two_changes_world ''source/sub/b.odin''"
    by (simp_all add: two_changes_world_def world0_def pending_def)
  have f: "find (pending two_changes_world) (tracked_files ''source'' two_changes_world)
      = Some ''source/a.odin''"
    by (simp add: t pa)
  have k2: "st_mtime two_changes_world ''source/sub/b.odin'' = Some 7"
    and k3: "last_mtimes two_changes_world ''source/sub/b.odin'' = None"
    and k4: "st_mtime two_changes_world ''source/a.odin'' = Some 2"
    by (simp_all add: two_changes_world_def world0_def)
  have memb: "''source/sub/b.odin'' \<in> set (tracked_files ''source'' two_changes_world)"
    by (simp add: t)
  have ne: "''source/sub/b.odin'' \<noteq> ''source/a.odin''"
    by simp
  from C6_new_file_detected [OF prod.collapse [symmetric] memb k2 k3]
  obtain q where q: "find (pending two_changes_world) (tracked_files ''source'' two_changes_world)
        = Some q"
    and rq: "last_mtimes ?w' q = st_mtime two_changes_world q"
    and oq: "\<forall>p'. pending two_changes_world p' \<and> p' \<noteq> q \<longrightarrow>
        last_mtimes ?w' p' = last_mtimes two_changes_world p' \<and> pending ?w' p'"
    and aq: "(\<exists>p' \<in> set (tracked_files ''source'' two_changes_world).
        pending two_changes_world p' \<and> p' \<noteq> q) \<longrightarrow> fst (check_for_changes ''source'' ?w')"
    and r2: "fst (check_for_changes ''source'' two_changes_world)"
    by blast
  have qa: "q = ''source/a.odin''"
    using q f by simp
  have two: "last_mtimes ?w' ''source/a.odin'' = Some 2 \<and>
      last_mtimes ?w' ''source/sub/b.odin'' = None \<and>
      pending ?w' ''source/sub/b.odin'' \<and>
      fst (check_for_changes ''source'' ?w')"
    using rq oq aq pb memb ne k3 k4 unfolding qa by auto
  from one two h1 h2 h3 f k2 k3 r2 show ?thesis
    by simp
qed

text \<open>
  The claim C6 as it is written fails when two files are new: \<^verbatim>\<open>source/b.odin\<close> is on
  disk and has no entry, yet the poll, which stops at \<^verbatim>\<open>source/a.odin\<close>, does not record
  its time stamp, and the next poll, with no further change, returns true.
\<close>

theorem C6_counterexample:
  "''source/b.odin'' \<in> set (tracked_files ''source'' two_new_files_world) \<and>
   st_mtime two_new_files_world ''source/b.odin'' = Some 1 \<and>
   last_mtimes two_new_files_world ''source/b.odin'' = None \<and>
   last_mtimes (snd (check_for_changes ''source'' two_new_files_world)) ''source/b.odin'' = None \<and>
   fst (check_for_changes ''source'' (snd (check_for_changes ''source'' two_new_files_world)))"
proof -
  have "''source/b.odin'' \<in> set (tracked_files ''source'' two_new_files_world)"
    by (simp add: two_new_files_world_def world0_def tracked_files_def tracked_in_def
        path_join_def endswith_def)
  moreover have "st_mtime two_new_files_world ''source/b.odin'' = Some 1"
    by (simp add: two_new_files_world_def world0_def)
  moreover have "last_mtimes two_new_files_world ''source/b.odin'' = None"
    by (simp add: two_new_files_world_def world0_def)
  moreover have
    "last_mtimes (snd (check_for_changes ''source'' two_new_files_world)) ''source/b.odin'' = None"
    by (simp add: two_new_files_world_run)
  ultimately show ?thesis
    using two_new_files_world_second_run by simp
qed

section \<open>The claims about the build driver and the process manager\<close>

text \<open>
  C2. When \<^verbatim>\<open>build_dll\<close> fails (returns \<open>False\<close>), the file at the in-place path of the
  module is what it was before, after \<^verbatim>\<open>build_dll\<close> and after the whole of
  \<^verbatim>\<open>build_and_run_project\<close>: the compiler was told to write to the temporary path, and
  no rename was made. \<^verbatim>\<open>build_and_run_project\<close> then builds the executable and stops:
  the events of the cycle are the two compiler runs and their messages, with no process
  query and no start of the host.
\<close>

theorem C2_failed_module_build_is_isolated:
  assumes "fst (build_dll dll_ext flags w) = Inr False"
  shows "out_path (dll_build_cmd dll_ext flags) = Some (path_join OUT_DIR (''game_tmp'' @ dll_ext)) \<and>
         disk (snd (build_dll dll_ext flags w)) (path_join OUT_DIR (''game'' @ dll_ext))
           = disk w (path_join OUT_DIR (''game'' @ dll_ext)) \<and>
         disk (snd (build_and_run_project dll_ext flags w)) (path_join OUT_DIR (''game'' @ dll_ext))
           = disk w (path_join OUT_DIR (''game'' @ dll_ext)) \<and>
         emitted w (snd (build_and_run_project dll_ext flags w)) =
           [Print (''Building game'' @ dll_ext), Run (dll_build_cmd dll_ext flags),
            Print ''Shared library build failed.'',
            Print (''Building '' @ EXE), Run exe_build_cmd] @
           (if fst (odin w exe_build_cmd) \<noteq> 0 then [Print ''Executable build failed.''] else [])"
proof -
  let ?final = "path_join OUT_DIR (''game'' @ dll_ext)"
  have rc: "fst (odin w (dll_build_cmd dll_ext flags)) \<noteq> 0"
    using assms by (simp add: build_dll_fields split: if_splits)
  have a: "out_path (dll_build_cmd dll_ext flags) = Some (path_join OUT_DIR (''game_tmp'' @ dll_ext))"
    by (simp add: out_path_dll path_join_def)
  have "disk (snd (build_dll dll_ext flags w)) =
      compiler_output (dll_build_cmd dll_ext flags) (snd (odin w (dll_build_cmd dll_ext flags))) (disk w)"
    using rc by (simp add: build_dll_fields)
  then have b: "disk (snd (build_dll dll_ext flags w)) ?final = disk w ?final"
    by (simp add: compiler_output_other [OF out_path_dll] path_join_def)
  have "?final \<noteq> EXE"
    by (simp add: path_join_def OUT_DIR_def EXE_def)
  then have "disk (snd (build_and_run_project dll_ext flags w)) ?final =
      disk (snd (build_dll dll_ext flags w)) ?final"
    unfolding build_and_run_project_fields(3) [OF assms]
    by (rule compiler_output_other [OF out_path_exe])
  from this b have c: "disk (snd (build_and_run_project dll_ext flags w)) ?final = disk w ?final"
    by (rule trans)
  have d: "emitted w (snd (build_and_run_project dll_ext flags w)) =
           [Print (''Building game'' @ dll_ext), Run (dll_build_cmd dll_ext flags),
            Print ''Shared library build failed.'',
            Print (''Building '' @ EXE), Run exe_build_cmd] @
           (if fst (odin w exe_build_cmd) \<noteq> 0 then [Print ''Executable build failed.''] else [])"
    by (rule emitted_eqI) (simp add: build_and_run_project_fields(2) [OF assms])
  from a b c d show ?thesis
    by blast
qed

theorem C2_witness:
  "fst (build_dll ''.so'' ''-Wl,-rpath=$ORIGIN/linux'' dll_fails_world) = Inr False \<and>
   disk dll_fails_world ''build/hot_reload/game.so'' = Some ''old module'' \<and>
   disk (snd (build_and_run_project ''.so'' ''-Wl,-rpath=$ORIGIN/linux'' dll_fails_world))
     ''build/hot_reload/game.so'' = Some ''old module'' \<and>
   emitted dll_fails_world
     (snd (build_and_run_project ''.so'' ''-Wl,-rpath=$ORIGIN/linux'' dll_fails_world)) =
     [Print ''Building game.so'', Run (dll_build_cmd ''.so'' ''-Wl,-rpath=$ORIGIN/linux''),
      Print ''Shared library build failed.'',
      Print ''Building game_hot_reload.bin'', Run exe_build_cmd]"
proof -
  have h: "disk dll_fails_world ''build/hot_reload/game.so'' = Some ''old module''"
    by (simp add: dll_fails_world_def world0_def)
  have o: "fst (odin dll_fails_world exe_build_cmd) = 0"
    by (simp add: dll_fails_world_def world0_def out_path_exe EXE_def)
  from C2_failed_module_build_is_isolated [OF dll_fails_world_build] dll_fails_world_build h o
  show ?thesis
    by (simp add: path_join_def OUT_DIR_def EXE_def)
qed

text \<open>
  C7. When the process-listing query raises, whatever the exception,
  \<^verbatim>\<open>is_binary_running\<close> returns false, and \<^verbatim>\<open>run_binary\<close> goes on to start the host: after
  the query it prints the start message and calls \<^verbatim>\<open>Popen\<close> on the executable.
\<close>

theorem C7_query_failure_means_not_running:
  assumes "proc_list w (if platform_system w = ''Windows'' then [''tasklist''] else [''ps'', ''aux''])
             = Inl e"
  shows "fst (is_binary_running w) = False \<and>
         emitted w (snd (run_binary w)) =
           [Check_output (if platform_system w = ''Windows'' then [''tasklist''] else [''ps'', ''aux'']),
            Print (''Starting '' @ EXE @ ''...''),
            Popen [''./'' @ EXE] (child_env (environ w))]"
proof -
  have a: "fst (is_binary_running w) = False"
    using assms by (simp add: is_binary_running_fields)
  have "emitted w (snd (run_binary w)) =
           [Check_output (if platform_system w = ''Windows'' then [''tasklist''] else [''ps'', ''aux'']),
            Print (''Starting '' @ EXE @ ''...''),
            Popen [''./'' @ EXE] (child_env (environ w))]"
    by (rule emitted_eqI) (simp add: run_binary_fields a)
  with a show ?thesis
    by simp
qed

theorem C7_witness:
  "proc_list query_fails_world [''ps'', ''aux''] = Inl OSError \<and>
   \<not> fst (is_binary_running query_fails_world) \<and>
   emitted query_fails_world (snd (run_binary query_fails_world)) =
     [Check_output [''ps'', ''aux''], Print ''Starting game_hot_reload.bin...'',
      Popen [''./game_hot_reload.bin''] [''LD_LIBRARY_PATH'' \<mapsto> ''build/hot_reload/linux:'']]"
proof -
  have p: "platform_system query_fails_world \<noteq> ''Windows''"
    by (simp add: query_fails_world_def world0_def)
  have h: "proc_list query_fails_world
      (if platform_system query_fails_world = ''Windows'' then [''tasklist''] else [''ps'', ''aux''])
        = Inl OSError"
    by (simp add: query_fails_world_def world0_def)
  have e: "child_env (environ query_fails_world) = [''LD_LIBRARY_PATH'' \<mapsto> ''build/hot_reload/linux:'']"
    by (simp add: child_env_def query_fails_world_def world0_def OUT_DIR_def)
  from C7_query_failure_means_not_running [OF h] h p e show ?thesis
    by (simp add: EXE_def)
qed

text \<open>
  C8. \<^verbatim>\<open>run_binary\<close> queries the process list once. When the host is not running it
  starts \<^verbatim>\<open>./game_hot_reload.bin\<close> with an environment in which \<^verbatim>\<open>LD_LIBRARY_PATH\<close> is
  \<^verbatim>\<open>build/hot_reload/linux:\<close> followed by the variable's previous value (by nothing when
  it was unset) and every other variable is as in the script's own environment. When
  the host is running, it prints a message and does nothing else. In both cases the
  script's own environment and the disk are left as they are.
\<close>

theorem C8_run_binary_starts_host_once:
  "(\<not> fst (is_binary_running w) \<longrightarrow>
      (\<exists>env. emitted w (snd (run_binary w)) =
                [Check_output (if platform_system w = ''Windows''
                               then [''tasklist''] else [''ps'', ''aux'']),
                 Print ''Starting game_hot_reload.bin...'',
                 Popen [''./game_hot_reload.bin''] env] \<and>
             env ''LD_LIBRARY_PATH'' =
               Some (''build/hot_reload/linux:'' @
                     (case environ w ''LD_LIBRARY_PATH'' of None \<Rightarrow> [] | Some v \<Rightarrow> v)) \<and>
             (\<forall>k. k \<noteq> ''LD_LIBRARY_PATH'' \<longrightarrow> env k = environ w k))) \<and>
   (fst (is_binary_running w) \<longrightarrow>
      emitted w (snd (run_binary w)) =
        [Check_output (if platform_system w = ''Windows'' then [''tasklist''] else [''ps'', ''aux'']),
         Print ''Hot reloading game_hot_reload.bin...'']) \<and>
   environ (snd (run_binary w)) = environ w \<and> disk (snd (run_binary w)) = disk w"
proof -
  have env: "child_env (environ w) ''LD_LIBRARY_PATH'' =
      Some (''build/hot_reload/linux:'' @
            (case environ w ''LD_LIBRARY_PATH'' of None \<Rightarrow> [] | Some v \<Rightarrow> v))"
    and others: "\<forall>k. k \<noteq> ''LD_LIBRARY_PATH'' \<longrightarrow> child_env (environ w) k = environ w k"
    by (simp_all add: child_env_def OUT_DIR_def)
  have start: "emitted w (snd (run_binary w)) =
      [Check_output (if platform_system w = ''Windows'' then [''tasklist''] else [''ps'', ''aux'']),
       Print ''Starting game_hot_reload.bin...'',
       Popen [''./game_hot_reload.bin''] (child_env (environ w))]"
    if "\<not> fst (is_binary_running w)"
    by (rule emitted_eqI) (simp add: run_binary_fields that EXE_def)
  have reload: "emitted w (snd (run_binary w)) =
      [Check_output (if platform_system w = ''Windows'' then [''tasklist''] else [''ps'', ''aux'']),
       Print ''Hot reloading game_hot_reload.bin...'']"
    if "fst (is_binary_running w)"
    by (rule emitted_eqI) (simp add: run_binary_fields that EXE_def)
  from env others start reload show ?thesis
    by (simp add: run_binary_fields)
qed

theorem C8_witness:
  "\<not> fst (is_binary_running env_world) \<and>
   emitted env_world (snd (run_binary env_world)) =
     [Check_output [''ps'', ''aux''], Print ''Starting game_hot_reload.bin...'',
      Popen [''./game_hot_reload.bin'']
        [''LD_LIBRARY_PATH'' \<mapsto> ''build/hot_reload/linux:/opt/lib'', ''HOME'' \<mapsto> ''/root'']] \<and>
   fst (is_binary_running running_world) \<and>
   emitted running_world (snd (run_binary running_world)) =
     [Check_output [''ps'', ''aux''], Print ''Hot reloading game_hot_reload.bin...'']"
proof -
  have n: "\<not> fst (is_binary_running env_world)"
    by (simp add: is_binary_running_fields env_world_def world0_def EXE_def)
  have r: "fst (is_binary_running running_world)"
    by (simp add: is_binary_running_fields running_world_def world0_def EXE_def)
  have e: "emitted env_world (snd (run_binary env_world)) =
     [Check_output [''ps'', ''aux''], Print ''Starting game_hot_reload.bin...'',
      Popen [''./game_hot_reload.bin'']
        [''LD_LIBRARY_PATH'' \<mapsto> ''build/hot_reload/linux:/opt/lib'', ''HOME'' \<mapsto> ''/root'']]"
  proof (rule emitted_eqI)
    have c: "child_env (environ env_world) =
        [''LD_LIBRARY_PATH'' \<mapsto> ''build/hot_reload/linux:/opt/lib'', ''HOME'' \<mapsto> ''/root'']"
      by (auto simp add: child_env_def OUT_DIR_def env_world_def world0_def fun_eq_iff)
    have q: "platform_system env_world \<noteq> ''Windows''"
      by (simp add: env_world_def world0_def)
    show "trace (snd (run_binary env_world)) = trace env_world @
       [Check_output [''ps'', ''aux''], Print ''Starting game_hot_reload.bin...'',
        Popen [''./game_hot_reload.bin'']
          [''LD_LIBRARY_PATH'' \<mapsto> ''build/hot_reload/linux:/opt/lib'', ''HOME'' \<mapsto> ''/root'']]"
      by (simp add: run_binary_fields n c q EXE_def)
  qed
  have p: "platform_system running_world \<noteq> ''Windows''"
    by (simp add: running_world_def world0_def)
  from C8_run_binary_starts_host_once [of running_world] r p n e show ?thesis
    by simp
qed

text \<open>
  C10. \<^verbatim>\<open>build_and_run_project\<close> runs the compiler on the module and then on the host
  executable, whatever \<^verbatim>\<open>build_dll\<close> has returned: also when it has returned \<open>False\<close>.
  (\<^verbatim>\<open>build_dll\<close> returns unless the rename of the temporary file raises; that exception
  is not a build result and leaves \<^verbatim>\<open>build_and_run_project\<close> too.) The cycle itself
  returns whenever it does not start the host (a build has failed, or the host is running
  already); when it starts the host, it returns unless \<^verbatim>\<open>Popen\<close> raises.
\<close>

theorem C10_both_builds_attempted:
  assumes "fst (build_dll dll_ext flags w) = Inr dll_built"
  shows "compiler_runs (emitted w (snd (build_and_run_project dll_ext flags w))) =
           [dll_build_cmd dll_ext flags, exe_build_cmd] \<and>
         fst (build_and_run_project dll_ext flags w) =
           (if dll_built \<and> fst (odin w exe_build_cmd) = 0 \<and> \<not> fst (is_binary_running w)
            then if disk (snd (build_and_run_project dll_ext flags w)) EXE = None
                 then Inl FileNotFoundError
                 else case popen_error w [''./'' @ EXE] of Some e \<Rightarrow> Inl e | None \<Rightarrow> Inr ()
            else Inr ())"
  using build_and_run_project_runs [OF assms] build_and_run_project_fields(1) [OF assms]
  by (rule conjI)

theorem C10_witness:
  "fst (build_dll ''.so'' ''-Wl,-rpath=$ORIGIN/linux'' dll_fails_world) = Inr False \<and>
   compiler_runs (emitted dll_fails_world
      (snd (build_and_run_project ''.so'' ''-Wl,-rpath=$ORIGIN/linux'' dll_fails_world))) =
     [dll_build_cmd ''.so'' ''-Wl,-rpath=$ORIGIN/linux'', exe_build_cmd] \<and>
   fst (build_and_run_project ''.so'' ''-Wl,-rpath=$ORIGIN/linux'' dll_fails_world) = Inr ()"
  using C10_both_builds_attempted [OF dll_fails_world_build] dll_fails_world_build
  by simp

section \<open>The claims about the watch loop\<close>

text \<open>
  C5. When the stop marker exists at the stop check of a pass through the loop (the
  poll and the rebuild of that pass have returned), the loop returns in that pass,
  whatever would have happened outside later: it prints its message, deletes the
  marker and leaves without sleeping, and the marker is gone when it has returned.
\<close>

theorem C5_stop_marker_consumed:
  assumes "rebuild_if_changed dll_ext flags w = (Inr (), w1)"
    and "disk w1 EXIT_SIGNAL_FILE \<noteq> None"
  shows "fst (watch_for_changes dll_ext flags outside w) = Some (Inr ()) \<and>
         disk (snd (watch_for_changes dll_ext flags outside w)) EXIT_SIGNAL_FILE = None \<and>
         trace (snd (watch_for_changes dll_ext flags outside w)) =
           trace w1 @ [Print ''Exit signal detected. Exiting...'', Unlink EXIT_SIGNAL_FILE]"
  by (simp add: watch_breaks [OF assms] unlink_fields print_fields)

theorem C5_witness:
  "disk stop_world EXIT_SIGNAL_FILE = Some [] \<and>
   fst (watch_for_changes ''.so'' ''-Wl,-rpath=$ORIGIN/linux'' [] stop_world) = Some (Inr ()) \<and>
   disk (snd (watch_for_changes ''.so'' ''-Wl,-rpath=$ORIGIN/linux'' [] stop_world))
     EXIT_SIGNAL_FILE = None \<and>
   trace (snd (watch_for_changes ''.so'' ''-Wl,-rpath=$ORIGIN/linux'' [] stop_world)) =
     [Stat ''source/a.odin'', Print ''Exit signal detected. Exiting...'', Unlink ''exit_signal.tmp'']"
proof -
  let ?w1 = "stop_world\<lparr>trace := [Stat ''source/a.odin'']\<rparr>"
  have h1: "rebuild_if_changed ''.so'' ''-Wl,-rpath=$ORIGIN/linux'' stop_world = (Inr (), ?w1)"
    by (simp add: rebuild_if_changed_def stop_world_run)
  have h0: "disk stop_world EXIT_SIGNAL_FILE = Some []"
    by (simp add: stop_world_def settled_world_def world0_def EXIT_SIGNAL_FILE_def)
  then have h2: "disk ?w1 EXIT_SIGNAL_FILE \<noteq> None"
    by simp
  from C5_stop_marker_consumed [OF h1 h2, of "[]"] h0 show ?thesis
    by (simp add: EXIT_SIGNAL_FILE_def)
qed

text \<open>
  C9. In a pass in which the poll detects a change while the stop marker exists already
  at the start of the pass, the rebuild comes first. When \<^verbatim>\<open>build_and_run_project\<close> has
  returned, the loop sees the marker, deletes it and returns, and the events of the pass
  after the poll are, in this order: the rebuild message; the module build, with its
  rename into place or its failure message; the executable build; when both builds have
  succeeded, the process query and the start of the host (or the reload message); and
  last the exit message and the deletion of the marker. On disk, the module built by
  the compiler has been renamed into place, the executable is the compiler's output,
  and the marker is gone.
\<close>

theorem C9_rebuild_before_stop:
  assumes "check_for_changes ''source'' w = (True, w1)"
    and "disk w EXIT_SIGNAL_FILE \<noteq> None"
    and "build_and_run_project dll_ext flags (print ''Rebuilding due to detected changes...'' w1)
           = (Inr (), w2)"
  shows "fst (watch_for_changes dll_ext flags outside w) = Some (Inr ()) \<and>
         trace (snd (watch_for_changes dll_ext flags outside w)) =
           trace w1 @
           [Print ''Rebuilding due to detected changes...'',
            Print (''Building game'' @ dll_ext), Run (dll_build_cmd dll_ext flags)] @
           (if fst (odin w (dll_build_cmd dll_ext flags)) = 0
            then [Rename (path_join OUT_DIR (''game_tmp'' @ dll_ext))
                    (path_join OUT_DIR (''game'' @ dll_ext))]
            else [Print ''Shared library build failed.'']) @
           [Print (''Building '' @ EXE), Run exe_build_cmd] @
           (if fst (odin w exe_build_cmd) \<noteq> 0 then [Print ''Executable build failed.''] else []) @
           (if fst (odin w (dll_build_cmd dll_ext flags)) = 0 \<and> fst (odin w exe_build_cmd) = 0
            then [Check_output (if platform_system w = ''Windows''
                                then [''tasklist''] else [''ps'', ''aux''])] @
                 (if fst (is_binary_running w)
                  then [Print (''Hot reloading '' @ EXE @ ''...'')]
                  else [Print (''Starting '' @ EXE @ ''...''),
                        Popen [''./'' @ EXE] (child_env (environ w))])
            else []) @
           [Print ''Exit signal detected. Exiting...'', Unlink EXIT_SIGNAL_FILE] \<and>
         disk (snd (watch_for_changes dll_ext flags outside w)) = (disk w2)(EXIT_SIGNAL_FILE := None) \<and>
         disk w2 (path_join OUT_DIR (''game'' @ dll_ext)) =
           (if fst (odin w (dll_build_cmd dll_ext flags)) = 0
            then compiler_output (dll_build_cmd dll_ext flags)
                   (snd (odin w (dll_build_cmd dll_ext flags))) (disk w)
                   (path_join OUT_DIR (''game_tmp'' @ dll_ext))
            else disk w (path_join OUT_DIR (''game'' @ dll_ext))) \<and>
         disk w2 (path_join OUT_DIR (''game_tmp'' @ dll_ext)) =
           (if fst (odin w (dll_build_cmd dll_ext flags)) = 0 then None
            else compiler_output (dll_build_cmd dll_ext flags)
                   (snd (odin w (dll_build_cmd dll_ext flags))) (disk w)
                   (path_join OUT_DIR (''game_tmp'' @ dll_ext))) \<and>
         disk w2 EXE = compiler_output exe_build_cmd (snd (odin w exe_build_cmd)) (disk w) EXE"
proof -
  let ?w0 = "print ''Rebuilding due to detected changes...'' w1"
  let ?cmd = "dll_build_cmd dll_ext flags"
  let ?tmp = "path_join OUT_DIR (''game_tmp'' @ dll_ext)"
  let ?final = "path_join OUT_DIR (''game'' @ dll_ext)"
  let ?d1 = "compiler_output ?cmd (snd (odin w ?cmd)) (disk w)"
  note fr = check_for_changes_frame [OF assms(1)]
  have o0: "odin ?w0 = odin w" and ps0: "platform_system ?w0 = platform_system w"
    and pl0: "proc_list ?w0 = proc_list w" and e0: "environ ?w0 = environ w"
    and d0: "disk ?w0 = disk w"
    and t0: "trace ?w0 = trace w1 @ [Print ''Rebuilding due to detected changes...'']"
    using fr by (simp_all add: print_fields)
  have rb: "rebuild_if_changed dll_ext flags w = (Inr (), w2)"
    by (simp add: rebuild_if_changed_def assms(1) assms(3))
  have w2: "w2 = snd (build_and_run_project dll_ext flags ?w0)"
    by (simp add: assms(3))
  obtain dll_built where b: "fst (build_dll dll_ext flags ?w0) = Inr dll_built"
    using build_and_run_project_returns [of dll_ext flags ?w0 "()"] assms(3) by auto
  have rc: "dll_built = (fst (odin w ?cmd) = 0)"
    using b by (simp add: build_dll_fields o0 split: if_splits)
  have run0: "fst (is_binary_running ?w0) = fst (is_binary_running w)"
    by (simp add: is_binary_running_fields ps0 pl0)
  have neq: "?final \<noteq> EXE" "?tmp \<noteq> EXE" "?tmp \<noteq> ?final"
    "EXIT_SIGNAL_FILE \<noteq> ?tmp" "EXIT_SIGNAL_FILE \<noteq> ?final" "EXIT_SIGNAL_FILE \<noteq> EXE"
    by (simp_all add: path_join_def OUT_DIR_def EXE_def EXIT_SIGNAL_FILE_def)
  have tr2: "trace w2 =
      trace w1 @
      [Print ''Rebuilding due to detected changes...'',
       Print (''Building game'' @ dll_ext), Run ?cmd] @
      (if fst (odin w ?cmd) = 0 then [Rename ?tmp ?final]
       else [Print ''Shared library build failed.'']) @
      [Print (''Building '' @ EXE), Run exe_build_cmd] @
      (if fst (odin w exe_build_cmd) \<noteq> 0 then [Print ''Executable build failed.''] else []) @
      (if fst (odin w ?cmd) = 0 \<and> fst (odin w exe_build_cmd) = 0
       then [Check_output (if platform_system w = ''Windows''
                           then [''tasklist''] else [''ps'', ''aux''])] @
            (if fst (is_binary_running w)
             then [Print (''Hot reloading '' @ EXE @ ''...'')]
             else [Print (''Starting '' @ EXE @ ''...''),
                   Popen [''./'' @ EXE] (child_env (environ w))])
       else [])"
    unfolding w2 build_and_run_project_fields(2) [OF b]
    by (simp add: t0 o0 ps0 e0 run0 rc)
  have "disk w2 EXIT_SIGNAL_FILE = disk ?w0 EXIT_SIGNAL_FILE"
    unfolding w2 by (rule build_and_run_project_disk_other [OF b neq(4) neq(5) neq(6)])
  with assms(2) have marker: "disk w2 EXIT_SIGNAL_FILE \<noteq> None"
    by (simp add: d0)
  note wb = watch_breaks [OF rb marker, of outside]
  have dd: "disk (snd (build_dll dll_ext flags ?w0)) =
      (if fst (odin w ?cmd) \<noteq> 0 then ?d1
       else case ?d1 ?tmp of None \<Rightarrow> ?d1 | Some bytes \<Rightarrow> ?d1(?tmp := None, ?final \<mapsto> bytes))"
    unfolding build_dll_fields(3) o0 d0 by (rule refl)
  have nz: "?d1 ?tmp \<noteq> None" if "fst (odin w ?cmd) = 0"
    using b that by (simp add: build_dll_fields(1) o0 d0 split: if_splits)
  have f1: "?d1 ?final = disk w ?final"
    using neq(3) by (simp add: compiler_output_other [OF out_path_dll] path_join_def)
  have after_exe: "disk w2 x = disk (snd (build_dll dll_ext flags ?w0)) x" if "x \<noteq> EXE" for x
    unfolding w2 build_and_run_project_fields(3) [OF b]
    using that by (rule compiler_output_other [OF out_path_exe])
  have m1: "disk (snd (build_dll dll_ext flags ?w0)) ?final =
      (if fst (odin w ?cmd) = 0 then ?d1 ?tmp else disk w ?final)"
  proof (cases "fst (odin w ?cmd) = 0")
    case True
    with nz obtain bytes where "?d1 ?tmp = Some bytes"
      by auto
    with True show ?thesis
      by (simp add: dd)
  next
    case False
    then show ?thesis
      using f1 by (simp add: dd)
  qed
  have m2: "disk (snd (build_dll dll_ext flags ?w0)) ?tmp =
      (if fst (odin w ?cmd) = 0 then None else ?d1 ?tmp)"
  proof (cases "fst (odin w ?cmd) = 0")
    case True
    with nz obtain bytes where "?d1 ?tmp = Some bytes"
      by auto
    with True neq(3) show ?thesis
      by (simp add: dd)
  next
    case False
    then show ?thesis
      by (simp add: dd)
  qed
  have "disk (snd (build_dll dll_ext flags ?w0)) EXE = disk w EXE"
    using build_dll_disk_other [of EXE dll_ext flags ?w0] neq(1,2) by (simp add: d0)
  then have m3: "disk w2 EXE = compiler_output exe_build_cmd (snd (odin w exe_build_cmd)) (disk w) EXE"
    unfolding w2 build_and_run_project_fields(3) [OF b]
    by (simp add: compiler_output_def out_path_exe o0 split: option.splits)
  have c1: "fst (watch_for_changes dll_ext flags outside w) = Some (Inr ())"
    by (simp add: wb)
  have c2: "trace (snd (watch_for_changes dll_ext flags outside w)) =
      trace w2 @ [Print ''Exit signal detected. Exiting...'', Unlink EXIT_SIGNAL_FILE]"
    by (simp add: wb unlink_fields print_fields)
  have c3: "disk (snd (watch_for_changes dll_ext flags outside w)) = (disk w2)(EXIT_SIGNAL_FILE := None)"
    by (simp add: wb unlink_fields print_fields)
  have c4: "disk w2 ?final = (if fst (odin w ?cmd) = 0 then ?d1 ?tmp else disk w ?final)"
    using after_exe [OF neq(1)] m1 by simp
  have c5: "disk w2 ?tmp = (if fst (odin w ?cmd) = 0 then None else ?d1 ?tmp)"
    using after_exe [OF neq(2)] m2 by simp
  from c1 c2 [unfolded tr2] c3 c4 c5 m3 show ?thesis
    by simp
qed

theorem C9_witness:
  "fst (check_for_changes ''source'' change_and_stop_world) \<and>
   disk change_and_stop_world EXIT_SIGNAL_FILE = Some [] \<and>
   fst (watch_for_changes ''.so'' ''-Wl,-rpath=$ORIGIN/linux'' [] change_and_stop_world)
     = Some (Inr ()) \<and>
   trace (snd (watch_for_changes ''.so'' ''-Wl,-rpath=$ORIGIN/linux'' [] change_and_stop_world)) =
     [Stat ''source/a.odin'', Print ''Detected change in source/a.odin.'',
      Print ''Rebuilding due to detected changes...'',
      Print ''Building game.so'', Run (dll_build_cmd ''.so'' ''-Wl,-rpath=$ORIGIN/linux''),
      Rename ''build/hot_reload/game_tmp.so'' ''build/hot_reload/game.so'',
      Print ''Building game_hot_reload.bin'', Run exe_build_cmd,
      Check_output [''ps'', ''aux''],
      Print ''Starting game_hot_reload.bin...'',
      Popen [''./game_hot_reload.bin''] [''LD_LIBRARY_PATH'' \<mapsto> ''build/hot_reload/linux:''],
      Print ''Exit signal detected. Exiting...'', Unlink ''exit_signal.tmp''] \<and>
   disk (snd (watch_for_changes ''.so'' ''-Wl,-rpath=$ORIGIN/linux'' [] change_and_stop_world))
     ''build/hot_reload/game.so'' = Some ''built'' \<and>
   disk (snd (watch_for_changes ''.so'' ''-Wl,-rpath=$ORIGIN/linux'' [] change_and_stop_world))
     ''build/hot_reload/game_tmp.so'' = None \<and>
   disk (snd (watch_for_changes ''.so'' ''-Wl,-rpath=$ORIGIN/linux'' [] change_and_stop_world))
     ''game_hot_reload.bin'' = Some ''built'' \<and>
   disk (snd (watch_for_changes ''.so'' ''-Wl,-rpath=$ORIGIN/linux'' [] change_and_stop_world))
     ''exit_signal.tmp'' = None"
proof -
  let ?W = change_and_stop_world
  let ?flags = "''-Wl,-rpath=$ORIGIN/linux''"
  let ?w1 = "snd (check_for_changes ''source'' ?W)"
  let ?w0 = "print ''Rebuilding due to detected changes...'' ?w1"
  let ?w2 = "snd (build_and_run_project ''.so'' ?flags ?w0)"
  let ?end = "snd (watch_for_changes ''.so'' ?flags [] ?W)"
  have h1: "check_for_changes ''source'' ?W = (True, ?w1)"
    using change_and_stop_world_run by (simp add: prod_eq_iff)
  have t1: "trace ?w1 = [Stat ''source/a.odin'', Print ''Detected change in source/a.odin.'']"
    by (simp add: change_and_stop_world_def new_file_world_def world0_def check_for_changes_def
        emit_def print_def path_join_def endswith_def Let_def)
  have h2: "disk ?W EXIT_SIGNAL_FILE = Some []"
    by (simp add: change_and_stop_world_def new_file_world_def world0_def EXIT_SIGNAL_FILE_def)
  then have h2': "disk ?W EXIT_SIGNAL_FILE \<noteq> None"
    by simp
  have oW: "odin ?W = (\<lambda>cmd. (0, Some ''built''))" and eW: "environ ?W = Map.empty"
    and pW: "proc_list ?W = (\<lambda>cmd. Inr [])" and sW: "platform_system ?W = ''Linux''"
    and xW: "popen_error ?W = (\<lambda>argv. None)" and dW: "disk ?W = [''exit_signal.tmp'' \<mapsto> []]"
    by (simp_all add: change_and_stop_world_def new_file_world_def world0_def)
  note fr = check_for_changes_frame [OF h1]
  have o: "odin ?w0 = (\<lambda>cmd. (0, Some ''built''))" and x: "popen_error ?w0 = (\<lambda>argv. None)"
    and d: "disk ?w0 = [''exit_signal.tmp'' \<mapsto> []]"
    using fr by (simp_all add: print_fields oW xW dW)
  have nr: "\<not> fst (is_binary_running ?W)"
    by (simp add: is_binary_running_fields pW EXE_def)
  have nr0: "\<not> fst (is_binary_running ?w0)"
    using fr by (simp add: is_binary_running_fields print_fields pW EXE_def)
  have b: "fst (build_dll ''.so'' ?flags ?w0) = Inr True"
    by (simp add: build_dll_fields o compiler_output_def out_path_dll path_join_def)
  have de: "disk ?w2 EXE \<noteq> None"
    by (simp add: build_and_run_project_fields(3) [OF b] compiler_output_def out_path_exe o)
  have "fst (build_and_run_project ''.so'' ?flags ?w0) = Inr ()"
    using de by (simp add: build_and_run_project_fields(1) [OF b] o nr0 x)
  then have h3: "build_and_run_project ''.so'' ?flags ?w0 = (Inr (), ?w2)"
    by (simp add: prod_eq_iff)
  have ce: "child_env Map.empty = [''LD_LIBRARY_PATH'' \<mapsto> ''build/hot_reload/linux:'']"
    by (simp add: child_env_def OUT_DIR_def)
  from C9_rebuild_before_stop [OF h1 h2' h3, of "[]"]
  have r: "fst (watch_for_changes ''.so'' ?flags [] ?W) = Some (Inr ())"
    and tr: "trace ?end =
     [Stat ''source/a.odin'', Print ''Detected change in source/a.odin.'',
      Print ''Rebuilding due to detected changes...'',
      Print ''Building game.so'', Run (dll_build_cmd ''.so'' ?flags),
      Rename ''build/hot_reload/game_tmp.so'' ''build/hot_reload/game.so'',
      Print ''Building game_hot_reload.bin'', Run exe_build_cmd,
      Check_output [''ps'', ''aux''],
      Print ''Starting game_hot_reload.bin...'',
      Popen [''./game_hot_reload.bin''] [''LD_LIBRARY_PATH'' \<mapsto> ''build/hot_reload/linux:''],
      Print ''Exit signal detected. Exiting...'', Unlink ''exit_signal.tmp'']"
    and dk: "disk ?end = (disk ?w2)(EXIT_SIGNAL_FILE := None)"
    and k1: "disk ?w2 ''build/hot_reload/game.so'' = Some ''built''"
    and k2: "disk ?w2 ''build/hot_reload/game_tmp.so'' = None"
    and k3: "disk ?w2 ''game_hot_reload.bin'' = Some ''built''"
    by (simp_all add: t1 oW eW sW nr ce dW compiler_output_def out_path_dll out_path_exe
        path_join_def OUT_DIR_def EXE_def EXIT_SIGNAL_FILE_def)
  from r tr dk k1 k2 k3 change_and_stop_world_run h2 show ?thesis
    by (simp add: EXIT_SIGNAL_FILE_def)
qed

end
